theory Spec2Isabelle
  imports Complex_Main
begin

section \<open>Errors and tensors\<close>

text \<open>
  Exceptions of the Python program are values.  \<open>ConfigurationError\<close> is the error of the
  helper \<open>_check_dim_and_num_heads_consistency\<close>; the other constructors are the exception
  classes of Python and of the tensor and graph libraries.
\<close>

datatype error =
    ValueError | RuntimeError | IndexError | ZeroDivisionError
  | AttributeError | AssertionError | TypeError | ConfigurationError | DGLError

definition bindE :: "error + 'a \<Rightarrow> ('a \<Rightarrow> error + 'b) \<Rightarrow> error + 'b" where
  "bindE m f = (case m of Inl e \<Rightarrow> Inl e | Inr v \<Rightarrow> f v)"

text \<open>
  A tensor is its shape and its elements in row-major order, as a contiguous
  \<open>torch.Tensor\<close> stores them.  Floating-point numbers are idealised as reals wherever a
  tensor of type \<open>real tensor\<close> appears.
\<close>

record 'a tensor =
  shape :: "nat list"
  elems :: "'a list"

definition wf_tensor :: "'a tensor \<Rightarrow> bool" where
  "wf_tensor t = (length (elems t) = prod_list (shape t))"

text \<open>The slices along the first axis, \<open>t[n]\<close>, each flattened, and along the last axis.\<close>

definition slice_width :: "'a tensor \<Rightarrow> nat" where
  "slice_width t = prod_list (tl (shape t))"

definition slice :: "'a tensor \<Rightarrow> nat \<Rightarrow> 'a list" where
  "slice t n = take (slice_width t) (drop (n * slice_width t) (elems t))"

definition at2 :: "'a tensor \<Rightarrow> nat \<Rightarrow> nat \<Rightarrow> 'a" where
  "at2 t n j = elems t ! (n * slice_width t + j)"

definition tabulate2 :: "nat \<Rightarrow> nat \<Rightarrow> (nat \<Rightarrow> nat \<Rightarrow> 'a) \<Rightarrow> 'a list" where
  "tabulate2 n w f = concat (map (\<lambda>i. map (f i) [0..<w]) [0..<n])"

subsection \<open>Broadcasting addition: \<open>x + y\<close> of the tensor library\<close>

fun broadcast_rev :: "nat list \<Rightarrow> nat list \<Rightarrow> nat list option" where
  "broadcast_rev [] bs = Some bs"
| "broadcast_rev as [] = Some as"
| "broadcast_rev (a # as) (b # bs) =
     (if a = b \<or> b = 1 \<or> a = 1
      then map_option ((#) (if a = 1 then b else a)) (broadcast_rev as bs)
      else None)"

definition broadcast_shapes :: "nat list \<Rightarrow> nat list \<Rightarrow> nat list option" where
  "broadcast_shapes a b = map_option rev (broadcast_rev (rev a) (rev b))"

fun unravel :: "nat list \<Rightarrow> nat \<Rightarrow> nat list" where
  "unravel [] i = []"
| "unravel (d # ds) i = (i div prod_list ds) mod d # unravel ds i"

definition ravel :: "nat list \<Rightarrow> nat list \<Rightarrow> nat" where
  "ravel s idx = foldl (\<lambda>acc (d, j). acc * d + j) 0 (zip s idx)"

definition broadcast_get :: "'a tensor \<Rightarrow> nat list \<Rightarrow> nat \<Rightarrow> 'a" where
  "broadcast_get t s i =
     (let idx = drop (length s - length (shape t)) (unravel s i)
      in elems t ! ravel (shape t) (map2 (\<lambda>d j. if d = 1 then 0 else j) (shape t) idx))"

definition tensor_add :: "('a::plus) tensor \<Rightarrow> 'a tensor \<Rightarrow> error + 'a tensor" where
  "tensor_add x y =
     (case broadcast_shapes (shape x) (shape y) of
        None \<Rightarrow> Inl RuntimeError
      | Some s \<Rightarrow>
          Inr \<lparr>shape = s,
               elems = map (\<lambda>i. broadcast_get x s i + broadcast_get y s i) [0..<prod_list s]\<rparr>)"

section \<open>ResidualModulesWrapper\<close>

text \<open>
  A wrapped module is an \<open>nn.Module\<close>: the parameter names of its \<open>forward\<close>, what calling
  it with positional arguments returns or raises, and the attribute
  \<open>takes_graph_as_input\<close>, absent (\<open>None\<close>) until a wrapper sets it.
\<close>

datatype ('g, 'a) arg = GraphArg 'g | TensorArg "'a tensor"

record ('g, 'a) nn_module =
  forward_parameters :: "string list"
  call :: "('g, 'a) arg list \<Rightarrow> error + 'a tensor"
  takes_graph_as_input :: "bool option"

text \<open>The argument \<open>modules\<close> of the constructor: one module, or a sequence of modules.\<close>

datatype ('g, 'a) modules_arg =
    OneModule "('g, 'a) nn_module"
  | ModuleSeq "('g, 'a) nn_module list"

record ('g, 'a) ResidualModulesWrapper =
  wrapped_modules :: "('g, 'a) nn_module list"

definition set_takes_graph :: "('g, 'a) nn_module \<Rightarrow> ('g, 'a) nn_module" where
  "set_takes_graph m = m\<lparr>takes_graph_as_input := Some (''graph'' \<in> set (forward_parameters m))\<rparr>"

definition ResidualModulesWrapper_init ::
    "('g, 'a) modules_arg \<Rightarrow> ('g, 'a) ResidualModulesWrapper" where
  "ResidualModulesWrapper_init modules =
     (let modules = (case modules of OneModule m \<Rightarrow> [m] | ModuleSeq ms \<Rightarrow> ms)
      in \<lparr>wrapped_modules = map set_takes_graph modules\<rparr>)"

fun run_wrapped ::
    "('g, 'a) nn_module list \<Rightarrow> 'g \<Rightarrow> 'a tensor \<Rightarrow> error + 'a tensor" where
  "run_wrapped [] graph x_res = Inr x_res"
| "run_wrapped (m # ms) graph x_res =
     (case takes_graph_as_input m of
        None \<Rightarrow> Inl AttributeError
      | Some True \<Rightarrow> bindE (call m [GraphArg graph, TensorArg x_res]) (run_wrapped ms graph)
      | Some False \<Rightarrow> bindE (call m [TensorArg x_res]) (run_wrapped ms graph))"

definition ResidualModulesWrapper_forward ::
    "('g, 'a::plus) ResidualModulesWrapper \<Rightarrow> 'g \<Rightarrow> 'a tensor \<Rightarrow> error + 'a tensor" where
  "ResidualModulesWrapper_forward self graph x =
     bindE (run_wrapped (wrapped_modules self) graph x) (\<lambda>x_res. tensor_add x x_res)"

text \<open>
  Chaining by hand, as the specification words it: each module in list order, the graph
  passed exactly to the modules whose \<open>forward\<close> declares a parameter \<open>graph\<close>.
\<close>

fun manual_chain ::
    "('g, 'a) nn_module list \<Rightarrow> 'g \<Rightarrow> 'a tensor \<Rightarrow> error + 'a tensor" where
  "manual_chain [] g x = Inr x"
| "manual_chain (m # ms) g x =
     bindE (if ''graph'' \<in> set (forward_parameters m)
            then call m [GraphArg g, TensorArg x]
            else call m [TensorArg x])
       (manual_chain ms g)"

section \<open>Tensor operations of the library used by the modules\<close>

text \<open>\<open>torch.cat([a, b], axis=-1)\<close>.  A one-dimensional empty tensor is skipped.\<close>

definition last_row :: "'a tensor \<Rightarrow> nat \<Rightarrow> 'a list" where
  "last_row t i = take (last (shape t)) (drop (i * last (shape t)) (elems t))"

definition cat_last :: "'a tensor \<Rightarrow> 'a tensor \<Rightarrow> error + 'a tensor" where
  "cat_last a b =
     (if shape a = [] \<or> shape b = [] then Inl RuntimeError
      else if shape b = [0] then Inr a
      else if shape a = [0] then Inr b
      else if butlast (shape a) \<noteq> butlast (shape b) then Inl RuntimeError
      else Inr \<lparr>shape = butlast (shape a) @ [last (shape a) + last (shape b)],
                elems = concat (map (\<lambda>i. last_row a i @ last_row b i)
                                 [0..<prod_list (butlast (shape a))])\<rparr>)"


text \<open>
  \<open>nn.Linear\<close>: \<open>y = x W\<^sup>T + b\<close> on the last axis.  The parameter values with which the
  library initialises the layer are arguments of the constructor.
\<close>

record nn_Linear =
  in_features :: nat
  out_features :: nat
  weight :: "nat \<Rightarrow> nat \<Rightarrow> real"
  bias :: "(nat \<Rightarrow> real) option"

definition nn_Linear_init ::
    "int \<Rightarrow> int \<Rightarrow> (nat \<Rightarrow> nat \<Rightarrow> real) \<Rightarrow> (nat \<Rightarrow> real) option \<Rightarrow> error + nn_Linear" where
  "nn_Linear_init n_in n_out w b =
     (if n_in < 0 \<or> n_out < 0 then Inl RuntimeError
      else Inr \<lparr>in_features = nat n_in, out_features = nat n_out, weight = w, bias = b\<rparr>)"


text \<open>\<open>nn.LeakyReLU(negative_slope)\<close>, elementwise.\<close>

definition LeakyReLU :: "real \<Rightarrow> real tensor \<Rightarrow> real tensor" where
  "LeakyReLU negative_slope t =
     t\<lparr>elems := map (\<lambda>v. if v > 0 then v else v * negative_slope) (elems t)\<rparr>"

section \<open>Graphs and the message-passing primitives\<close>

text \<open>
  A graph is its number of nodes and its directed edges \<open>(u, v)\<close>, source first, in the order
  of their edge ids.
\<close>

record graph =
  num_nodes :: nat
  edges :: "(nat \<times> nat) list"

definition wf_graph :: "graph \<Rightarrow> bool" where
  "wf_graph g = list_all (\<lambda>(u, v). u < num_nodes g \<and> v < num_nodes g) (edges g)"

definition in_edges :: "graph \<Rightarrow> nat \<Rightarrow> nat list" where
  "in_edges g v = filter (\<lambda>e. snd (edges g ! e) = v) [0..<length (edges g)]"

definition in_neighbors :: "graph \<Rightarrow> nat \<Rightarrow> nat list" where
  "in_neighbors g v = map (\<lambda>e. fst (edges g ! e)) (in_edges g v)"


text \<open>
  Modelled from the spec: \<open>ops.copy_u_mean\<close> (\<open>aggregate_mean\<close>), of the graph library, is not
  part of the repository.  It averages each node's neighbor features, the neighbors being the
  sources of the node's incoming edges.  A node with no incoming edge gets zeros (the library
  divides the sum by the in-degree clamped to 1).  The primitives return tensors with the
  leading dimension of their input and refuse a node tensor whose leading dimension is not
  the number of nodes.
\<close>

definition copy_u_mean :: "graph \<Rightarrow> real tensor \<Rightarrow> error + real tensor" where
  "copy_u_mean g x =
     (if shape x = [] \<or> hd (shape x) \<noteq> num_nodes g then Inl DGLError
      else Inr \<lparr>shape = shape x,
                elems = tabulate2 (num_nodes g) (slice_width x)
                  (\<lambda>v j. (\<Sum>u\<leftarrow>in_neighbors g v. at2 x u j)
                         / real (max 1 (length (in_neighbors g v))))\<rparr>)"

text \<open>
  Floating-point values with the infinities and NaN, for the max aggregation, and the
  comparison \<open><\<close> of IEEE 754 (false when an operand is NaN).
\<close>

datatype fl = Finite real | PosInf | NegInf | NaN

fun fl_less :: "fl \<Rightarrow> fl \<Rightarrow> bool" where
  "fl_less (Finite a) (Finite b) = (a < b)"
| "fl_less (Finite a) PosInf = True"
| "fl_less NegInf (Finite b) = True"
| "fl_less NegInf PosInf = True"
| "fl_less a b = False"

definition isinf :: "fl \<Rightarrow> bool" where
  "isinf v = (v = PosInf \<or> v = NegInf)"

text \<open>The maximum of a list of values: the reduction starts from negative infinity and keeps
  the larger value.\<close>

definition fl_max_list :: "fl list \<Rightarrow> fl" where
  "fl_max_list vs = foldl (\<lambda>acc v. if fl_less acc v then v else acc) NegInf vs"

text \<open>
  Modelled from the spec: \<open>ops.copy_u_max\<close> (\<open>aggregate_max\<close>), of the graph library, takes
  the element-wise maximum over the neighbors; the row of a node with no neighbors is the
  negative-infinity sentinel.
\<close>

definition copy_u_max :: "graph \<Rightarrow> fl tensor \<Rightarrow> error + fl tensor" where
  "copy_u_max g x =
     (if shape x = [] \<or> hd (shape x) \<noteq> num_nodes g then Inl DGLError
      else Inr \<lparr>shape = shape x,
                elems = tabulate2 (num_nodes g) (slice_width x)
                  (\<lambda>v j. fl_max_list (map (\<lambda>u. at2 x u j) (in_neighbors g v)))\<rparr>)"




section \<open>Mean and max aggregation modules\<close>

definition GraphMeanAggregationModule_forward ::
    "graph \<Rightarrow> real tensor \<Rightarrow> error + real tensor" where
  "GraphMeanAggregationModule_forward graph x =
     bindE (copy_u_mean graph x) (\<lambda>x_aggregated. cat_last x x_aggregated)"

text \<open>\<open>x_aggregated[x_aggregated.isinf()] = 0\<close>, on the tensor the primitive returned.\<close>

definition zero_isinf :: "fl tensor \<Rightarrow> fl tensor" where
  "zero_isinf t = t\<lparr>elems := map (\<lambda>v. if isinf v then Finite 0 else v) (elems t)\<rparr>"

definition GraphMaxAggregationModule_forward ::
    "graph \<Rightarrow> fl tensor \<Rightarrow> error + fl tensor" where
  "GraphMaxAggregationModule_forward graph x =
     bindE (copy_u_max graph x) (\<lambda>x_aggregated. cat_last x (zero_isinf x_aggregated))"

section \<open>Attention aggregation modules and sequence encoders\<close>

text \<open>Python's \<open>a % b\<close> on integers: the remainder has the sign of the divisor.\<close>

definition py_mod :: "int \<Rightarrow> int \<Rightarrow> error + int" where
  "py_mod a b = (if b = 0 then Inl ZeroDivisionError else Inr (a mod b))"

text \<open>
  Modelled from the spec: \<open>_check_dim_and_num_heads_consistency\<close> is defined in the module
  \<open>utils\<close>, which is not among the sources.  Construction fails with a configuration error
  when \<open>dim % num_heads != 0\<close>.  The argument \<open>dim\<close> is written \<open>dim'\<close> throughout.
\<close>

definition check_dim_and_num_heads_consistency :: "int \<Rightarrow> int \<Rightarrow> error + unit" where
  "check_dim_and_num_heads_consistency dim' num_heads =
     bindE (py_mod dim' num_heads)
       (\<lambda>r. if r \<noteq> 0 then Inl ConfigurationError else Inr ())"

record GraphAttnGATAggregationModule =
  gat_dim :: int
  gat_num_heads :: int
  gat_head_dim :: int
  attn_linear_u :: nn_Linear
  attn_linear_v :: nn_Linear
  attn_act :: "real tensor \<Rightarrow> real tensor"

text \<open>
  The constructor after its check.  \<open>w_u\<close>, \<open>b_u\<close> and \<open>w_v\<close> are the initial parameters of the
  two linear layers.
\<close>

definition GraphAttnGATAggregationModule_build ::
    "int \<Rightarrow> int \<Rightarrow> (nat \<Rightarrow> nat \<Rightarrow> real) \<Rightarrow> (nat \<Rightarrow> real) \<Rightarrow> (nat \<Rightarrow> nat \<Rightarrow> real)
     \<Rightarrow> error + GraphAttnGATAggregationModule" where
  "GraphAttnGATAggregationModule_build dim' num_heads w_u b_u w_v =
     bindE (nn_Linear_init dim' num_heads w_u (Some b_u)) (\<lambda>lin_u.
     bindE (nn_Linear_init dim' num_heads w_v None) (\<lambda>lin_v.
     Inr \<lparr>gat_dim = dim', gat_num_heads = num_heads, gat_head_dim = dim' div num_heads,
          attn_linear_u = lin_u, attn_linear_v = lin_v, attn_act = LeakyReLU (2 / 10)\<rparr>))"

definition GraphAttnGATAggregationModule_init ::
    "int \<Rightarrow> int \<Rightarrow> (nat \<Rightarrow> nat \<Rightarrow> real) \<Rightarrow> (nat \<Rightarrow> real) \<Rightarrow> (nat \<Rightarrow> nat \<Rightarrow> real)
     \<Rightarrow> error + GraphAttnGATAggregationModule" where
  "GraphAttnGATAggregationModule_init dim' num_heads w_u b_u w_v =
     bindE (check_dim_and_num_heads_consistency dim' num_heads)
       (\<lambda>_. GraphAttnGATAggregationModule_build dim' num_heads w_u b_u w_v)"




text \<open>
  \<open>GraphAttnTrfAggregationModule.__init__\<close>.  \<open>nn.Dropout(p)\<close> refuses a probability outside
  \<open>[0, 1]\<close>.  The multiplier \<open>1 / sqrt(head_dim)\<close> is a floating-point value: infinite for
  \<open>head_dim = 0\<close>, NaN for a negative \<open>head_dim\<close>.
\<close>

definition nn_Dropout_init :: "real \<Rightarrow> error + real" where
  "nn_Dropout_init p = (if p < 0 \<or> p > 1 then Inl ValueError else Inr p)"

record GraphAttnTrfAggregationModule =
  trf_dim :: int
  trf_num_heads :: int
  trf_head_dim :: int
  attn_scores_multiplier :: fl
  attn_qkv_linear :: nn_Linear
  output_linear :: nn_Linear
  trf_dropout :: real

definition GraphAttnTrfAggregationModule_build ::
    "int \<Rightarrow> int \<Rightarrow> real \<Rightarrow> (nat \<Rightarrow> nat \<Rightarrow> real) \<Rightarrow> (nat \<Rightarrow> real)
     \<Rightarrow> (nat \<Rightarrow> nat \<Rightarrow> real) \<Rightarrow> (nat \<Rightarrow> real) \<Rightarrow> error + GraphAttnTrfAggregationModule" where
  "GraphAttnTrfAggregationModule_build dim' num_heads dropout w_qkv b_qkv w_out b_out =
     (let head_dim = dim' div num_heads;
          multiplier = (if head_dim > 0 then Finite (1 / sqrt (real_of_int head_dim))
                        else if head_dim = 0 then PosInf else NaN)
      in bindE (nn_Linear_init dim' (dim' * 3) w_qkv (Some b_qkv)) (\<lambda>qkv.
         bindE (nn_Linear_init dim' dim' w_out (Some b_out)) (\<lambda>out.
         bindE (nn_Dropout_init dropout) (\<lambda>p.
         Inr \<lparr>trf_dim = dim', trf_num_heads = num_heads, trf_head_dim = head_dim,
              attn_scores_multiplier = multiplier, attn_qkv_linear = qkv,
              output_linear = out, trf_dropout = p\<rparr>))))"

definition GraphAttnTrfAggregationModule_init ::
    "int \<Rightarrow> int \<Rightarrow> real \<Rightarrow> (nat \<Rightarrow> nat \<Rightarrow> real) \<Rightarrow> (nat \<Rightarrow> real)
     \<Rightarrow> (nat \<Rightarrow> nat \<Rightarrow> real) \<Rightarrow> (nat \<Rightarrow> real) \<Rightarrow> error + GraphAttnTrfAggregationModule" where
  "GraphAttnTrfAggregationModule_init dim' num_heads dropout w_qkv b_qkv w_out b_out =
     bindE (check_dim_and_num_heads_consistency dim' num_heads)
       (\<lambda>_. GraphAttnTrfAggregationModule_build dim' num_heads dropout w_qkv b_qkv w_out b_out)"

text \<open>
  \<open>TransformerSequenceEncoderModule.__init__\<close>.  The causal mask of
  \<open>generate_square_subsequent_mask\<close> is negative infinity above the diagonal and zero
  elsewhere.  \<open>nn.Embedding\<close> takes its initial weight, or a given \<open>_weight\<close> whose shape it
  asserts.  The constructor of the library's \<open>nn.TransformerEncoderLayer\<close> is the parameter
  \<open>encoder_layer\<close>, applied to \<open>d_model\<close>, \<open>nhead\<close>, \<open>dim_feedforward\<close> and \<open>dropout\<close>.
\<close>

definition generate_square_subsequent_mask :: "int \<Rightarrow> error + fl tensor" where
  "generate_square_subsequent_mask sz =
     (if sz < 0 then Inl RuntimeError
      else Inr \<lparr>shape = [nat sz, nat sz],
                elems = tabulate2 (nat sz) (nat sz) (\<lambda>i j. if i < j then NegInf else Finite 0)\<rparr>)"

definition nn_Embedding_init ::
    "int \<Rightarrow> int \<Rightarrow> real tensor option \<Rightarrow> (nat \<Rightarrow> nat \<Rightarrow> real) \<Rightarrow> error + real tensor" where
  "nn_Embedding_init num_embeddings embedding_dim weight_arg w0 =
     (case weight_arg of
        None \<Rightarrow>
          if num_embeddings < 0 \<or> embedding_dim < 0 then Inl RuntimeError
          else Inr \<lparr>shape = [nat num_embeddings, nat embedding_dim],
                    elems = tabulate2 (nat num_embeddings) (nat embedding_dim) w0\<rparr>
      | Some w \<Rightarrow>
          if map int (shape w) = [num_embeddings, embedding_dim] then Inr w
          else Inl AssertionError)"

fun build_layers :: "nat \<Rightarrow> (error + 'b) \<Rightarrow> error + 'b list" where
  "build_layers 0 mk = Inr []"
| "build_layers (Suc n) mk = bindE mk (\<lambda>b. bindE (build_layers n mk) (\<lambda>bs. Inr (b # bs)))"

record 'b TransformerSequenceEncoderModule =
  bidir_attn :: bool
  attn_mask :: "fl tensor option"
  positional_embeddings :: "real tensor"
  transformer_blocks :: "'b list"

definition TransformerSequenceEncoderModule_build ::
    "(int \<Rightarrow> int \<Rightarrow> int \<Rightarrow> real \<Rightarrow> error + 'b) \<Rightarrow> (nat \<Rightarrow> nat \<Rightarrow> real)
     \<Rightarrow> int \<Rightarrow> int \<Rightarrow> int \<Rightarrow> int \<Rightarrow> bool \<Rightarrow> real
     \<Rightarrow> error + 'b TransformerSequenceEncoderModule" where
  "TransformerSequenceEncoderModule_build encoder_layer w0 num_layers dim' num_heads seq_len
       bidir dropout =
     bindE (if bidir then Inr None
            else bindE (generate_square_subsequent_mask seq_len) (\<lambda>m. Inr (Some m))) (\<lambda>mask.
     bindE (nn_Embedding_init seq_len dim' None w0) (\<lambda>pos.
     bindE (build_layers (nat num_layers) (encoder_layer dim' num_heads dim' dropout)) (\<lambda>blocks.
     Inr \<lparr>bidir_attn = bidir, attn_mask = mask, positional_embeddings = pos,
          transformer_blocks = blocks\<rparr>)))"

definition TransformerSequenceEncoderModule_init ::
    "(int \<Rightarrow> int \<Rightarrow> int \<Rightarrow> real \<Rightarrow> error + 'b) \<Rightarrow> (nat \<Rightarrow> nat \<Rightarrow> real)
     \<Rightarrow> int \<Rightarrow> int \<Rightarrow> int \<Rightarrow> int \<Rightarrow> bool \<Rightarrow> real
     \<Rightarrow> error + 'b TransformerSequenceEncoderModule" where
  "TransformerSequenceEncoderModule_init encoder_layer w0 num_layers dim' num_heads seq_len
       bidir dropout =
     bindE (check_dim_and_num_heads_consistency dim' num_heads)
       (\<lambda>_. TransformerSequenceEncoderModule_build encoder_layer w0 num_layers dim' num_heads
               seq_len bidir dropout)"





section \<open>FeaturesPreparatorForDeepModels\<close>

text \<open>
  Boolean masks are one-dimensional boolean tensors: \<open>mask.sum()\<close>, \<open>~mask\<close>, and indexing a
  one-dimensional tensor or the last axis of a tensor by a mask, which the library refuses
  when the lengths differ.
\<close>

definition mask_sum :: "bool list \<Rightarrow> int" where
  "mask_sum m = int (length (filter id m))"

definition select :: "bool list \<Rightarrow> 'a list \<Rightarrow> 'a list" where
  "select m xs = map snd (filter fst (zip m xs))"

definition index_mask :: "bool list \<Rightarrow> 'a list \<Rightarrow> error + 'a list" where
  "index_mask m xs = (if length m \<noteq> length xs then Inl IndexError else Inr (select m xs))"

definition index_last :: "bool list \<Rightarrow> 'a tensor \<Rightarrow> error + 'a tensor" where
  "index_last m x =
     (if shape x = [] \<or> length m \<noteq> last (shape x) then Inl IndexError
      else Inr \<lparr>shape = butlast (shape x) @ [length (filter id m)],
                elems = concat (map (\<lambda>r. select m (last_row x r))
                                 [0..<prod_list (butlast (shape x))])\<rparr>)"

text \<open>\<open>torch.zeros(n, dtype=bool)\<close>.\<close>

definition zeros_bool :: "int \<Rightarrow> error + bool list" where
  "zeros_bool n = (if n < 0 then Inl RuntimeError else Inr (replicate (nat n) False))"

text \<open>\<open>t.flatten(start_dim=-2)\<close>.\<close>

definition flatten_last2 :: "'a tensor \<Rightarrow> error + 'a tensor" where
  "flatten_last2 t =
     (if length (shape t) < 2 then Inl IndexError
      else Inr \<lparr>shape = butlast (butlast (shape t)) @ [last (butlast (shape t)) * last (shape t)],
                elems = elems t\<rparr>)"

text \<open>
  Modelled from the spec: \<open>PLREmbeddings\<close> is defined in the module \<open>plr_embeddings\<close>, which is
  not among the sources.  Its \<open>forward\<close> maps \<open>[..., F]\<close> to \<open>[..., F, embedding_dim]\<close>,
  expanding each scalar into a vector of length \<open>embedding_dim\<close>; it is configured by the
  frequency count and scale, the embedding dimension and the two sharing flags.  The learned
  expansion is the field \<open>plr_embed\<close>: column, scalar and component give the value.  A
  vector has no negative length, so a negative \<open>embedding_dim\<close> is refused at construction.
\<close>

record PLREmbeddings =
  plr_features_dim :: int
  plr_frequencies_dim :: int
  plr_frequencies_scale :: real
  plr_embedding_dim :: nat
  plr_shared_linear :: bool
  plr_shared_frequencies :: bool
  plr_embed :: "nat \<Rightarrow> real \<Rightarrow> nat \<Rightarrow> real"

text \<open>
  Modelled from the spec: the constructor of \<open>PLREmbeddings\<close>, configured by the number of
  features, the frequency count and scale, the embedding dimension and the sharing flags.
\<close>

definition PLREmbeddings_init ::
    "int \<Rightarrow> int \<Rightarrow> real \<Rightarrow> int \<Rightarrow> bool \<Rightarrow> bool \<Rightarrow> (nat \<Rightarrow> real \<Rightarrow> nat \<Rightarrow> real)
     \<Rightarrow> error + PLREmbeddings" where
  "PLREmbeddings_init features_dim frequencies_dim frequencies_scale embedding_dim shared_linear
       shared_frequencies embed_fn =
     (if embedding_dim < 0 then Inl RuntimeError
      else Inr \<lparr>plr_features_dim = features_dim, plr_frequencies_dim = frequencies_dim,
                plr_frequencies_scale = frequencies_scale,
                plr_embedding_dim = nat embedding_dim, plr_shared_linear = shared_linear,
                plr_shared_frequencies = shared_frequencies, plr_embed = embed_fn\<rparr>)"

text \<open>
  Modelled from the spec: \<open>PLREmbeddings.forward\<close> maps \<open>[..., F]\<close> to
  \<open>[..., F, embedding_dim]\<close>, whatever the number \<open>F\<close> of columns it receives.
\<close>

definition PLREmbeddings_forward :: "PLREmbeddings \<Rightarrow> real tensor \<Rightarrow> error + real tensor" where
  "PLREmbeddings_forward plr x =
     (if shape x = [] then Inl RuntimeError
      else Inr \<lparr>shape = shape x @ [plr_embedding_dim plr],
                elems = tabulate2 (prod_list (shape x)) (plr_embedding_dim plr)
                  (\<lambda>i c. plr_embed plr (i mod last (shape x)) (elems x ! i) c)\<rparr>)"

text \<open>
  The arguments of the constructor, by name (\<open>num_nodes\<close> is written \<open>num_nodes_arg\<close>), and
  the initial values of the learnable parameters: of a freshly initialised node embedding and
  of the two PLR embeddings.
\<close>

record FeaturesPreparator_args =
  features_dim :: int
  use_learnable_node_embeddings :: bool
  num_nodes_arg :: int
  learnable_node_embeddings_dim :: int
  initialize_learnable_node_embeddings_with_deepwalk :: bool
  deepwalk_node_embeddings :: "real tensor option"
  use_plr_for_num_features :: bool
  num_features_mask :: "bool list"
  plr_num_features_frequencies_dim :: int
  plr_num_features_frequencies_scale :: real
  plr_num_features_embedding_dim :: int
  plr_num_features_shared_linear :: bool
  plr_num_features_shared_frequencies :: bool
  use_plr_for_past_targets :: bool
  past_targets_mask :: "bool list"
  plr_past_targets_frequencies_dim :: int
  plr_past_targets_frequencies_scale :: real
  plr_past_targets_embedding_dim :: int
  plr_past_targets_shared_linear :: bool
  plr_past_targets_shared_frequencies :: bool
  node_embeddings_init :: "nat \<Rightarrow> nat \<Rightarrow> real"
  plr_num_features_embed :: "nat \<Rightarrow> real \<Rightarrow> nat \<Rightarrow> real"
  plr_past_targets_embed :: "nat \<Rightarrow> real \<Rightarrow> nat \<Rightarrow> real"

text \<open>
  The attributes of the module.  An attribute that the constructor did not set is \<open>None\<close>.
  The weight of \<open>node_embeddings\<close> is kept.
\<close>

record FeaturesPreparatorForDeepModels =
  self_use_learnable_node_embeddings :: bool
  self_node_embeddings :: "real tensor option"
  self_use_plr_for_num_features :: bool
  self_plr_embeddings_num_features :: "PLREmbeddings option"
  self_num_features_mask :: "bool list option"
  self_use_plr_for_past_targtes :: bool
  self_plr_embeddings_past_targets :: "PLREmbeddings option"
  self_past_targets_mask :: "bool list option"
  self_output_dim :: int

text \<open>Lines 198 to 213: the learnable node embeddings.\<close>

definition init_node_embeddings :: "FeaturesPreparator_args \<Rightarrow> error + real tensor option" where
  "init_node_embeddings a =
     (if use_learnable_node_embeddings a then
        (if initialize_learnable_node_embeddings_with_deepwalk a then
           (case deepwalk_node_embeddings a of
              None \<Rightarrow> Inl AttributeError
            | Some w \<Rightarrow>
                if length (shape w) < 2 then Inl IndexError
                else if learnable_node_embeddings_dim a \<noteq> int (shape w ! 1) then Inl ValueError
                else bindE (nn_Embedding_init (num_nodes_arg a) (learnable_node_embeddings_dim a)
                              (Some w) (node_embeddings_init a))
                       (\<lambda>e. Inr (Some e)))
         else bindE (nn_Embedding_init (num_nodes_arg a) (learnable_node_embeddings_dim a)
                       None (node_embeddings_init a))
                (\<lambda>e. Inr (Some e)))
      else Inr None)"

text \<open>Lines 215 to 226: the PLR embedding of the numeric features.\<close>

definition init_plr_num_features :: "FeaturesPreparator_args \<Rightarrow> error + PLREmbeddings option" where
  "init_plr_num_features a =
     (if use_plr_for_num_features a then
        bindE (PLREmbeddings_init (mask_sum (num_features_mask a))
                 (plr_num_features_frequencies_dim a) (plr_num_features_frequencies_scale a)
                 (plr_num_features_embedding_dim a) (plr_num_features_shared_linear a)
                 (plr_num_features_shared_frequencies a) (plr_num_features_embed a))
          (\<lambda>plr. Inr (Some plr))
      else Inr None)"

text \<open>Lines 239 to 244: the mask of the past targets, moved to the layout after step 1.\<close>

definition shift_past_targets_mask :: "FeaturesPreparator_args \<Rightarrow> error + bool list" where
  "shift_past_targets_mask a =
     (if use_plr_for_num_features a then
        bindE (index_mask (map Not (num_features_mask a)) (past_targets_mask a))
          (\<lambda>past_targets_mask.
        let num_features_dim = mask_sum (num_features_mask a);
            embedded_num_features_dim = num_features_dim * plr_num_features_embedding_dim a
        in bindE (zeros_bool embedded_num_features_dim) (\<lambda>embedded_num_features_shift.
           Inr (embedded_num_features_shift @ past_targets_mask)))
      else Inr (past_targets_mask a))"

text \<open>Lines 228 to 246: the PLR embedding of the past targets and their mask.\<close>

definition init_plr_past_targets ::
    "FeaturesPreparator_args \<Rightarrow> error + (PLREmbeddings option \<times> bool list option)" where
  "init_plr_past_targets a =
     (if use_plr_for_past_targets a then
        bindE (PLREmbeddings_init (mask_sum (past_targets_mask a))
                 (plr_past_targets_frequencies_dim a) (plr_past_targets_frequencies_scale a)
                 (plr_past_targets_embedding_dim a) (plr_past_targets_shared_linear a)
                 (plr_past_targets_shared_frequencies a) (plr_past_targets_embed a))
          (\<lambda>plr. bindE (shift_past_targets_mask a) (\<lambda>m. Inr (Some plr, Some m)))
      else Inr (None, None))"

text \<open>The output dimension accumulated by the constructor, lines 196 to 231.\<close>

definition accumulated_output_dim :: "FeaturesPreparator_args \<Rightarrow> int" where
  "accumulated_output_dim a =
     (let output_dim = features_dim a;
          output_dim = (if use_learnable_node_embeddings a
                        then output_dim + learnable_node_embeddings_dim a else output_dim);
          output_dim = (if use_plr_for_num_features a
                        then output_dim - mask_sum (num_features_mask a)
                             + mask_sum (num_features_mask a) * plr_num_features_embedding_dim a
                        else output_dim);
          output_dim = (if use_plr_for_past_targets a
                        then output_dim - mask_sum (past_targets_mask a)
                             + mask_sum (past_targets_mask a) * plr_past_targets_embedding_dim a
                        else output_dim)
      in output_dim)"

definition FeaturesPreparatorForDeepModels_init ::
    "FeaturesPreparator_args \<Rightarrow> error + FeaturesPreparatorForDeepModels" where
  "FeaturesPreparatorForDeepModels_init a =
     bindE (init_node_embeddings a) (\<lambda>node_embeddings.
     bindE (init_plr_num_features a) (\<lambda>plr_num.
     bindE (init_plr_past_targets a) (\<lambda>(plr_past, past_mask).
     Inr \<lparr>self_use_learnable_node_embeddings = use_learnable_node_embeddings a,
          self_node_embeddings = node_embeddings,
          self_use_plr_for_num_features = use_plr_for_num_features a,
          self_plr_embeddings_num_features = plr_num,
          self_num_features_mask =
            (if use_plr_for_num_features a then Some (num_features_mask a) else None),
          self_use_plr_for_past_targtes = use_plr_for_past_targets a,
          self_plr_embeddings_past_targets = plr_past,
          self_past_targets_mask = past_mask,
          self_output_dim = accumulated_output_dim a\<rparr>)))"

text \<open>
  One PLR step of \<open>forward\<close> (lines 252 to 254, and 257 to 259): the masked columns are
  embedded, flattened and put in front of the other columns.
\<close>

definition plr_step :: "bool list \<Rightarrow> PLREmbeddings \<Rightarrow> real tensor \<Rightarrow> error + real tensor" where
  "plr_step msk plr x =
     bindE (index_last msk x) (\<lambda>x_sel.
     bindE (PLREmbeddings_forward plr x_sel) (\<lambda>embedded.
     bindE (flatten_last2 embedded) (\<lambda>x_embedded.
     bindE (index_last (map Not msk) x) (\<lambda>x_rest.
     cat_last x_embedded x_rest))))"

definition embed_num_features ::
    "FeaturesPreparatorForDeepModels \<Rightarrow> real tensor \<Rightarrow> error + real tensor" where
  "embed_num_features self x =
     (if self_use_plr_for_num_features self then
        (case (self_num_features_mask self, self_plr_embeddings_num_features self) of
           (Some msk, Some plr) \<Rightarrow> plr_step msk plr x
         | _ \<Rightarrow> Inl AttributeError)
      else Inr x)"






text \<open>
  Two masks are disjoint when no column is selected by both.  An input is well shaped for a
  configuration when its last dimension is \<open>features_dim\<close>, the masks in use have that length
  and, with node embeddings, it has two or three dimensions and its first dimension is a
  multiple of the positive number of nodes.
\<close>

definition masks_disjoint :: "bool list \<Rightarrow> bool list \<Rightarrow> bool" where
  "masks_disjoint m1 m2 = list_all (\<lambda>(a, b). \<not> (a \<and> b)) (zip m1 m2)"


section \<open>Example graphs and feature tensors\<close>

text \<open>A node with three in-neighbors, and the five-node graph of the specification.\<close>

definition fan_graph :: graph where
  "fan_graph = \<lparr>num_nodes = 4, edges = [(0, 3), (1, 3), (2, 3)]\<rparr>"

definition fan_x :: "real tensor" where
  "fan_x = \<lparr>shape = [4, 2], elems = [1, 2, 3, 4, 5, 9, 7, 8]\<rparr>"

definition spec_graph :: graph where
  "spec_graph = \<lparr>num_nodes = 5, edges = [(0, 1), (1, 2), (2, 0), (3, 4)]\<rparr>"

definition spec_x_fl :: "fl tensor" where
  "spec_x_fl = \<lparr>shape = [5, 2],
     elems = [Finite 1, Finite 2, Finite 3, NegInf, Finite 5, Finite 6,
              PosInf, Finite 2, NaN, Finite 8]\<rparr>"



definition example_w_u :: "nat \<Rightarrow> nat \<Rightarrow> real" where
  "example_w_u h i = (if h = 1 \<and> i = 1 then 1 else 0)"

definition example_b_u :: "nat \<Rightarrow> real" where
  "example_b_u h = 0"

definition example_w_v :: "nat \<Rightarrow> nat \<Rightarrow> real" where
  "example_w_v h i = 0"



text \<open>
  Configurations of the features preparator: three features, the first numeric, the last a
  past target; with every transformation enabled; with overlapping masks and PLR parameters
  shared across the features; and with precomputed node embeddings of dimension 3.
\<close>

definition base_args :: FeaturesPreparator_args where
  "base_args =
     \<lparr>features_dim = 3,
      use_learnable_node_embeddings = False,
      num_nodes_arg = 2,
      learnable_node_embeddings_dim = 2,
      initialize_learnable_node_embeddings_with_deepwalk = False,
      deepwalk_node_embeddings = None,
      use_plr_for_num_features = False,
      num_features_mask = [True, False, False],
      plr_num_features_frequencies_dim = 4,
      plr_num_features_frequencies_scale = 1,
      plr_num_features_embedding_dim = 2,
      plr_num_features_shared_linear = False,
      plr_num_features_shared_frequencies = False,
      use_plr_for_past_targets = False,
      past_targets_mask = [False, False, True],
      plr_past_targets_frequencies_dim = 4,
      plr_past_targets_frequencies_scale = 1,
      plr_past_targets_embedding_dim = 3,
      plr_past_targets_shared_linear = False,
      plr_past_targets_shared_frequencies = False,
      node_embeddings_init = (\<lambda>i j. real i),
      plr_num_features_embed = (\<lambda>col v c. v + real c),
      plr_past_targets_embed = (\<lambda>col v c. v * 10 + real c)\<rparr>"

definition full_args :: FeaturesPreparator_args where
  "full_args = base_args\<lparr>use_learnable_node_embeddings := True,
     use_plr_for_num_features := True, use_plr_for_past_targets := True\<rparr>"






text \<open>
  A module whose \<open>forward(graph, x)\<close> adds the graph (here a number) to every entry, and a
  module whose \<open>forward(x)\<close> doubles every entry.  A call with other arguments is a
  \<open>TypeError\<close>.
\<close>

definition shift_by_graph :: "(nat, real) nn_module" where
  "shift_by_graph =
     \<lparr>forward_parameters = [''graph'', ''x''],
      call = (\<lambda>args. case args of
                [GraphArg g, TensorArg t] \<Rightarrow> Inr (t\<lparr>elems := map (\<lambda>v. v + real g) (elems t)\<rparr>)
              | _ \<Rightarrow> Inl TypeError),
      takes_graph_as_input = None\<rparr>"

definition double_features :: "(nat, real) nn_module" where
  "double_features =
     \<lparr>forward_parameters = [''x''],
      call = (\<lambda>args. case args of
                [TensorArg t] \<Rightarrow> Inr (t\<lparr>elems := map (\<lambda>v. 2 * v) (elems t)\<rparr>)
              | _ \<Rightarrow> Inl TypeError),
      takes_graph_as_input = None\<rparr>"

section \<open>Properties of the residual wrapper\<close>

lemma set_takes_graph_simps:
  "takes_graph_as_input (set_takes_graph m) = Some (''graph'' \<in> set (forward_parameters m))"
  "call (set_takes_graph m) = call m"
  "forward_parameters (set_takes_graph m) = forward_parameters m"
  by (simp_all add: set_takes_graph_def)

lemma run_wrapped_init:
  "run_wrapped (map set_takes_graph ms) g x = manual_chain ms g x"
proof (induction ms arbitrary: x)
  case Nil
  show ?case by simp
next
  case (Cons m ms)
  have "\<And>y. run_wrapped (map set_takes_graph ms) g y = manual_chain ms g y"
    using Cons.IH by simp
  then have eq: "run_wrapped (map set_takes_graph ms) g = manual_chain ms g"
    by (rule ext)
  show ?case
    by (simp add: set_takes_graph_simps eq)
qed

text \<open>
  C1.  For every graph \<open>g\<close>, input tensor \<open>x\<close> and list \<open>ms\<close> of sub-modules, the wrapper built
  from \<open>ms\<close> stores for each module, once and at construction, whether its \<open>forward\<close>
  declares a parameter \<open>graph\<close>, and \<open>forward g x\<close> is \<open>x + x_res\<close>, where \<open>x_res\<close> is the
  result of chaining the modules by hand in list order with the graph passed as first
  argument exactly to the modules that declare it; an error of a module or of the addition
  is the error of \<open>forward\<close>.
\<close>

theorem residual_forward_routes_graph:
  "map takes_graph_as_input (wrapped_modules (ResidualModulesWrapper_init (ModuleSeq ms))) =
     map (\<lambda>m. Some (''graph'' \<in> set (forward_parameters m))) ms
   \<and> ResidualModulesWrapper_forward (ResidualModulesWrapper_init (ModuleSeq ms)) g x =
     bindE (manual_chain ms g x) (\<lambda>x_res. tensor_add x x_res)"
  by (simp add: ResidualModulesWrapper_forward_def ResidualModulesWrapper_init_def
      run_wrapped_init set_takes_graph_simps)

theorem residual_forward_routes_graph_witness:
  "ResidualModulesWrapper_forward
     (ResidualModulesWrapper_init (ModuleSeq [shift_by_graph, double_features]))
     10 \<lparr>shape = [2], elems = [1, 2]\<rparr>
   = Inr \<lparr>shape = [2], elems = [23, 26]\<rparr>"
proof -
  have "bindE (manual_chain [shift_by_graph, double_features] 10 \<lparr>shape = [2], elems = [1, 2]\<rparr>)
          (\<lambda>x_res. tensor_add \<lparr>shape = [2], elems = [1, 2]\<rparr> x_res)
        = Inr \<lparr>shape = [2], elems = [23, 26 :: real]\<rparr>"
    by code_simp
  then show ?thesis
    using residual_forward_routes_graph[of "[shift_by_graph, double_features]" 10
        "\<lparr>shape = [2], elems = [1, 2]\<rparr>"]
    by simp
qed

text \<open>
  C9.  A wrapper constructed from a single module \<open>m\<close> is the wrapper constructed from the
  one-element list \<open>[m]\<close>, so the two give the same \<open>forward g x\<close> for every \<open>g\<close> and \<open>x\<close>.
\<close>

theorem residual_single_module_is_singleton:
  "ResidualModulesWrapper_init (OneModule m) = ResidualModulesWrapper_init (ModuleSeq [m])
   \<and> ResidualModulesWrapper_forward (ResidualModulesWrapper_init (OneModule m)) g x =
     ResidualModulesWrapper_forward (ResidualModulesWrapper_init (ModuleSeq [m])) g x"
  by (simp add: ResidualModulesWrapper_init_def)

section \<open>Tensor addition\<close>

lemma ravel_unravel_aux:
  "0 < prod_list s \<Longrightarrow>
   foldl (\<lambda>acc (d, j). acc * d + j) a (zip s (unravel s i)) = a * prod_list s + i mod prod_list s"
proof (induction s arbitrary: a)
  case Nil
  then show ?case by simp
next
  case (Cons d ds)
  let ?p = "prod_list ds"
  have p: "0 < ?p" using Cons.prems by (cases "?p = 0") simp_all
  have "i mod (?p * d) = ?p * (i div ?p mod d) + i mod ?p" by (rule mod_mult2_eq)
  then show ?case using Cons.IH[OF p] by (simp add: algebra_simps)
qed

lemma ravel_unravel: "i < prod_list s \<Longrightarrow> ravel s (unravel s i) = i"
proof -
  assume i: "i < prod_list s"
  then have "0 < prod_list s" by simp
  then show ?thesis using i by (simp add: ravel_def ravel_unravel_aux)
qed

lemma unravel_ones:
  "map2 (\<lambda>d j. if d = 1 then 0 else j) s (unravel s i) = unravel s i"
  by (induction s) simp_all

lemma length_unravel: "length (unravel s i) = length s"
  by (induction s) simp_all

lemma broadcast_rev_same: "broadcast_rev s s = Some s"
  by (induction s) simp_all

lemma broadcast_get_same:
  assumes "shape t = s" "i < prod_list s"
  shows "broadcast_get t s i = elems t ! i"
proof -
  have "drop (length s - length (shape t)) (unravel s i) = unravel s i"
    using assms(1) by simp
  then have "broadcast_get t s i = elems t ! ravel s (unravel s i)"
    unfolding broadcast_get_def Let_def assms(1) by (simp only: unravel_ones)
  then show ?thesis using assms(2) by (simp only: ravel_unravel)
qed

text \<open>On tensors of one shape the addition is elementwise.\<close>

lemma tensor_add_same_shape:
  assumes "shape x = shape y" "wf_tensor x" "wf_tensor y"
  shows "tensor_add x y = Inr \<lparr>shape = shape x, elems = map2 (+) (elems x) (elems y)\<rparr>"
proof -
  let ?n = "prod_list (shape x)"
  have bs: "broadcast_shapes (shape x) (shape y) = Some (shape x)"
    using assms(1) by (simp add: broadcast_shapes_def broadcast_rev_same)
  have "map (\<lambda>i. broadcast_get x (shape x) i + broadcast_get y (shape x) i) [0..<?n]
      = map (\<lambda>i. elems x ! i + elems y ! i) [0..<?n]"
    using assms(1) by (intro map_cong) (simp_all add: broadcast_get_same)
  also have "\<dots> = map2 (+) (elems x) (elems y)"
    using assms by (intro nth_equalityI) (simp_all add: wf_tensor_def)
  finally show ?thesis using bs by (simp add: tensor_add_def)
qed

section \<open>Lists of rows\<close>

lemma row_bound: "v < n \<Longrightarrow> v * w + w \<le> n * (w::nat)"
proof -
  assume "v < n"
  then have "Suc v * w \<le> n * w" by (intro mult_le_mono1) simp
  then show ?thesis by simp
qed

lemma length_concat_const:
  "(\<And>i. i < n \<Longrightarrow> length (f i) = w) \<Longrightarrow> length (concat (map f [0..<n])) = n * w"
  by (induction n) simp_all

lemma take_drop_concat:
  assumes "\<And>i. i < n \<Longrightarrow> length (f i) = w" and "v < n"
  shows "take w (drop (v * w) (concat (map f [0..<n]))) = f v"
  using assms
proof (induction n)
  case 0
  then show ?case by simp
next
  case (Suc n)
  have len: "length (concat (map f [0..<n])) = n * w"
    using Suc.prems(1) by (simp add: length_concat_const)
  show ?case
  proof (cases "v < n")
    case True
    then have le: "v * w + w \<le> n * w" by (rule row_bound)
    have "take w (drop (v * w) (concat (map f [0..<n]))) = f v"
      using Suc.IH Suc.prems(1) True by simp
    then show ?thesis using le len by simp
  next
    case False
    then have "v = n" using Suc.prems(2) by simp
    then show ?thesis using len Suc.prems(1) by simp
  qed
qed

lemma length_tabulate2: "length (tabulate2 n w f) = n * w"
  by (simp add: tabulate2_def length_concat_const)

lemma take_drop_tabulate2:
  "v < n \<Longrightarrow> take w (drop (v * w) (tabulate2 n w f)) = map (f v) [0..<w]"
  unfolding tabulate2_def by (rule take_drop_concat) simp_all


section \<open>Two-dimensional tensors and concatenation\<close>

lemma slice_2d:
  "shape t = [n, w] \<Longrightarrow> slice t v = take w (drop (v * w) (elems t))"
  by (simp add: slice_def slice_width_def)

lemma last_row_2d:
  "shape t = [n, w] \<Longrightarrow> last_row t v = take w (drop (v * w) (elems t))"
  by (simp add: last_row_def)

lemma length_slice_2d:
  assumes "shape t = [n, w]" "wf_tensor t" "v < n"
  shows "length (slice t v) = w"
proof -
  have "v * w + w \<le> n * w" using assms(3) by (rule row_bound)
  then show ?thesis using assms by (simp add: slice_2d wf_tensor_def)
qed

lemma nth_slice_2d:
  assumes "shape t = [n, w]" "wf_tensor t" "v < n" "j < w"
  shows "slice t v ! j = at2 t v j"
proof -
  have "v * w + w \<le> n * w" using assms(3) by (rule row_bound)
  then show ?thesis using assms by (simp add: slice_2d wf_tensor_def at2_def slice_width_def nth_drop)
qed

lemma cat_last_2d:
  assumes "shape a = [n, wa]" "shape b = [n, wb]"
  shows "cat_last a b = Inr \<lparr>shape = [n, wa + wb],
           elems = concat (map (\<lambda>i. slice a i @ slice b i) [0..<n])\<rparr>"
  using assms by (simp add: cat_last_def last_row_2d slice_2d)

lemma cat_last_2d_shape:
  assumes "shape a = [n, wa]" "shape b = [n, wb]" "wf_tensor a" "wf_tensor b"
    and "cat_last a b = Inr out"
  shows "shape out = [n, wa + wb]" "wf_tensor out"
proof -
  let ?f = "\<lambda>i. slice a i @ slice b i"
  have out: "out = \<lparr>shape = [n, wa + wb], elems = concat (map ?f [0..<n])\<rparr>"
    using assms(5) cat_last_2d[OF assms(1,2)] by simp
  have len: "\<And>i. i < n \<Longrightarrow> length (?f i) = wa + wb"
    using assms(1-4) by (simp add: length_slice_2d)
  show "shape out = [n, wa + wb]" using out by simp
  show "wf_tensor out"
    using out length_concat_const[of n ?f "wa + wb"] len by (simp add: wf_tensor_def)
qed

lemma slice_cat_2d:
  assumes "shape a = [n, wa]" "shape b = [n, wb]" "wf_tensor a" "wf_tensor b" "v < n"
    and "cat_last a b = Inr out"
  shows "slice out v = slice a v @ slice b v"
proof -
  let ?f = "\<lambda>i. slice a i @ slice b i"
  have out: "out = \<lparr>shape = [n, wa + wb], elems = concat (map ?f [0..<n])\<rparr>"
    using assms(6) cat_last_2d[OF assms(1,2)] by simp
  have len: "\<And>i. i < n \<Longrightarrow> length (?f i) = wa + wb"
    using assms(1-4) by (simp add: length_slice_2d)
  have "shape out = [n, wa + wb]" using out by simp
  then have "slice out v = take (wa + wb) (drop (v * (wa + wb)) (elems out))"
    by (rule slice_2d)
  also have "\<dots> = ?f v"
    using take_drop_concat[of n ?f "wa + wb" v] len assms(5) out by simp
  finally show ?thesis .
qed

lemma in_neighbors_bound:
  assumes "wf_graph g" "u \<in> set (in_neighbors g v)"
  shows "u < num_nodes g"
proof -
  obtain e where e: "e < length (edges g)" "u = fst (edges g ! e)"
    using assms(2) by (auto simp: in_neighbors_def in_edges_def)
  then have "edges g ! e \<in> set (edges g)" by simp
  then have "case edges g ! e of (a, b) \<Rightarrow> a < num_nodes g \<and> b < num_nodes g"
    using assms(1) by (simp add: wf_graph_def list_all_iff)
  then show ?thesis using e(2) by (simp add: case_prod_beta)
qed

lemma slice_tabulate2:
  assumes "v < n"
  shows "slice \<lparr>shape = [n, w], elems = tabulate2 n w f\<rparr> v = map (f v) [0..<w]"
  using assms by (simp add: slice_2d take_drop_tabulate2)

lemma copy_u_mean_2d:
  assumes "shape x = [num_nodes g, d]"
  shows "copy_u_mean g x = Inr \<lparr>shape = [num_nodes g, d],
           elems = tabulate2 (num_nodes g) d
             (\<lambda>v j. (\<Sum>u\<leftarrow>in_neighbors g v. at2 x u j) / real (max 1 (length (in_neighbors g v))))\<rparr>"
  using assms by (simp add: copy_u_mean_def slice_width_def)


section \<open>Properties of the mean aggregation\<close>

text \<open>
  C6.  For a graph \<open>g\<close> and a node-feature tensor \<open>x\<close> of shape \<open>[num_nodes, d]\<close>, \<open>forward\<close>
  returns a tensor of shape \<open>[num_nodes, 2 * d]\<close> whose row \<open>v\<close> is row \<open>v\<close> of \<open>x\<close> followed by row
  \<open>v\<close> of the mean aggregation \<open>m\<close>; for a node with in-neighbors, entry \<open>j\<close> of that row of
  \<open>m\<close> is the sum of the in-neighbors' entries \<open>j\<close> divided by their number (for neighbor
  rows \<open>a, b, c\<close>: \<open>(a + b + c) / 3\<close>).  Floating-point arithmetic is idealised as real
  arithmetic.
\<close>

theorem mean_forward_concat_mean:
  assumes "wf_graph g" and "shape x = [num_nodes g, d]" and "wf_tensor x"
  shows "\<exists>out m. GraphMeanAggregationModule_forward g x = Inr out
           \<and> copy_u_mean g x = Inr m
           \<and> shape out = [num_nodes g, 2 * d]
           \<and> (\<forall>v < num_nodes g. slice out v = slice x v @ slice m v
                \<and> length (slice x v) = d \<and> length (slice m v) = d
                \<and> (in_neighbors g v \<noteq> [] \<longrightarrow>
                     (\<forall>j < d. slice m v ! j =
                        (\<Sum>u\<leftarrow>in_neighbors g v. slice x u ! j) / real (length (in_neighbors g v)))))"
proof -
  let ?f = "\<lambda>v j. (\<Sum>u\<leftarrow>in_neighbors g v. at2 x u j) / real (max 1 (length (in_neighbors g v)))"
  let ?m = "\<lparr>shape = [num_nodes g, d], elems = tabulate2 (num_nodes g) d ?f\<rparr>"
  have m: "copy_u_mean g x = Inr ?m" using assms(2) by (rule copy_u_mean_2d)
  have wfm: "wf_tensor ?m" by (simp add: wf_tensor_def length_tabulate2)
  have shm: "shape ?m = [num_nodes g, d]" by simp
  obtain out where out: "cat_last x ?m = Inr out"
    using cat_last_2d[OF assms(2) shm] by simp
  have fw: "GraphMeanAggregationModule_forward g x = Inr out"
    using m out by (simp add: GraphMeanAggregationModule_forward_def bindE_def)
  have sh: "shape out = [num_nodes g, 2 * d]"
    using cat_last_2d_shape(1)[OF assms(2) shm assms(3) wfm out] by simp
  have rows: "slice out v = slice x v @ slice ?m v
                \<and> length (slice x v) = d \<and> length (slice ?m v) = d
                \<and> (in_neighbors g v \<noteq> [] \<longrightarrow>
                     (\<forall>j < d. slice ?m v ! j =
                        (\<Sum>u\<leftarrow>in_neighbors g v. slice x u ! j) / real (length (in_neighbors g v))))"
    if v: "v < num_nodes g" for v
  proof (intro conjI impI allI)
    show "slice out v = slice x v @ slice ?m v"
      using slice_cat_2d[OF assms(2) shm assms(3) wfm v out] .
    show "length (slice x v) = d"
      using length_slice_2d[OF assms(2,3) v] .
    show "length (slice ?m v) = d"
      using v by (simp add: slice_tabulate2)
  next
    fix j assume ne: "in_neighbors g v \<noteq> []" and j: "j < d"
    have s1: "slice ?m v ! j = ?f v j"
      using v j by (simp add: slice_tabulate2)
    have "map (\<lambda>u. at2 x u j) (in_neighbors g v) = map (\<lambda>u. slice x u ! j) (in_neighbors g v)"
      using in_neighbors_bound[OF assms(1)] nth_slice_2d[OF assms(2,3) _ j]
      by (intro map_cong) auto
    then have s2: "(\<Sum>u\<leftarrow>in_neighbors g v. at2 x u j) = (\<Sum>u\<leftarrow>in_neighbors g v. slice x u ! j)"
      by (rule arg_cong)
    have s3: "max 1 (length (in_neighbors g v)) = length (in_neighbors g v)"
      using ne by (cases "in_neighbors g v") simp_all
    show "slice ?m v ! j =
        (\<Sum>u\<leftarrow>in_neighbors g v. slice x u ! j) / real (length (in_neighbors g v))"
      by (simp only: s1 s2 s3)
  qed
  show ?thesis
    using fw m sh rows by blast
qed

theorem mean_forward_concat_mean_witness:
  "GraphMeanAggregationModule_forward fan_graph fan_x =
     Inr \<lparr>shape = [4, 4], elems = [1, 2, 0, 0, 3, 4, 0, 0, 5, 9, 0, 0, 7, 8, 3, 5]\<rparr>
   \<and> (\<exists>out m. GraphMeanAggregationModule_forward fan_graph fan_x = Inr out
           \<and> copy_u_mean fan_graph fan_x = Inr m
           \<and> shape out = [num_nodes fan_graph, 2 * 2]
           \<and> (\<forall>v < num_nodes fan_graph. slice out v = slice fan_x v @ slice m v
                \<and> length (slice fan_x v) = 2 \<and> length (slice m v) = 2
                \<and> (in_neighbors fan_graph v \<noteq> [] \<longrightarrow>
                     (\<forall>j < 2. slice m v ! j =
                        (\<Sum>u\<leftarrow>in_neighbors fan_graph v. slice fan_x u ! j)
                          / real (length (in_neighbors fan_graph v))))))"
proof -
  have h1: "wf_graph fan_graph" by code_simp
  have h2: "shape fan_x = [num_nodes fan_graph, 2]" by code_simp
  have h3: "wf_tensor fan_x" by code_simp
  have ev: "GraphMeanAggregationModule_forward fan_graph fan_x =
     Inr \<lparr>shape = [4, 4], elems = [1, 2, 0, 0, 3, 4, 0, 0, 5, 9, 0, 0, 7, 8, 3, 5]\<rparr>"
    by code_simp
  show ?thesis using ev mean_forward_concat_mean[OF h1 h2 h3] by blast
qed

section \<open>Properties of the max aggregation\<close>

lemma copy_u_max_2d:
  assumes "shape x = [num_nodes g, d]"
  shows "copy_u_max g x = Inr \<lparr>shape = [num_nodes g, d],
           elems = tabulate2 (num_nodes g) d
             (\<lambda>v j. fl_max_list (map (\<lambda>u. at2 x u j) (in_neighbors g v)))\<rparr>"
  using assms by (simp add: copy_u_max_def slice_width_def)

lemma slice_zero_isinf: "slice (zero_isinf t) v = map (\<lambda>y. if isinf y then Finite 0 else y) (slice t v)"
  by (simp add: slice_def slice_width_def zero_isinf_def take_map drop_map)

lemma zero_isinf_simps:
  "shape (zero_isinf t) = shape t" "wf_tensor (zero_isinf t) = wf_tensor t"
  by (simp_all add: zero_isinf_def wf_tensor_def)

lemma fl_max_list_PosInf_aux:
  "acc \<noteq> NaN \<Longrightarrow> PosInf \<in> set vs \<or> acc = PosInf \<Longrightarrow>
   foldl (\<lambda>acc v. if fl_less acc v then v else acc) acc vs = PosInf"
proof (induction vs arbitrary: acc)
  case Nil
  then show ?case by simp
next
  case (Cons v vs)
  let ?acc' = "if fl_less acc v then v else acc"
  have 1: "?acc' \<noteq> NaN" using Cons.prems(1) by (cases acc; cases v) simp_all
  have 2: "PosInf \<in> set vs \<or> ?acc' = PosInf"
    using Cons.prems by (cases acc; cases v) auto
  show ?case using Cons.IH[OF 1 2] by simp
qed

lemma fl_max_list_PosInf: "PosInf \<in> set vs \<Longrightarrow> fl_max_list vs = PosInf"
  unfolding fl_max_list_def by (rule fl_max_list_PosInf_aux) simp_all


text \<open>
  C5.  For a node \<open>v\<close> with no incoming edge, the aggregated half of row \<open>v\<close> of the output of
  the max aggregation is the zero vector (so neither negative infinity nor NaN), whatever the
  features \<open>x\<close> are; the first half is row \<open>v\<close> of \<open>x\<close>.
\<close>

theorem max_forward_isolated_zero:
  assumes "shape x = [num_nodes g, d]" and "wf_tensor x"
    and "v < num_nodes g" and "in_neighbors g v = []"
  shows "\<exists>out. GraphMaxAggregationModule_forward g x = Inr out
           \<and> shape out = [num_nodes g, 2 * d]
           \<and> take d (slice out v) = slice x v
           \<and> drop d (slice out v) = replicate d (Finite 0)"
proof -
  let ?f = "\<lambda>v j. fl_max_list (map (\<lambda>u. at2 x u j) (in_neighbors g v))"
  let ?m = "\<lparr>shape = [num_nodes g, d], elems = tabulate2 (num_nodes g) d ?f\<rparr>"
  have m: "copy_u_max g x = Inr ?m" using assms(1) by (rule copy_u_max_2d)
  have wfm: "wf_tensor ?m" by (simp add: wf_tensor_def length_tabulate2)
  have wfz: "wf_tensor (zero_isinf ?m)" using wfm by (simp only: zero_isinf_simps)
  have shz: "shape (zero_isinf ?m) = [num_nodes g, d]" by (simp add: zero_isinf_simps)
  obtain out where out: "cat_last x (zero_isinf ?m) = Inr out"
    using cat_last_2d[OF assms(1) shz] by simp
  have fw: "GraphMaxAggregationModule_forward g x = Inr out"
    using m out by (simp add: GraphMaxAggregationModule_forward_def bindE_def)
  have sh: "shape out = [num_nodes g, 2 * d]"
    using cat_last_2d_shape(1)[OF assms(1) shz assms(2) wfz out] by simp
  have row: "slice out v = slice x v @ slice (zero_isinf ?m) v"
    using slice_cat_2d[OF assms(1) shz assms(2) wfz assms(3) out] .
  have lx: "length (slice x v) = d" using length_slice_2d[OF assms(1,2,3)] .
  have "slice ?m v = map (\<lambda>j. NegInf) [0..<d]"
    using assms(3,4) by (simp add: slice_tabulate2 fl_max_list_def)
  then have "slice (zero_isinf ?m) v = replicate d (Finite 0)"
    by (simp add: slice_zero_isinf isinf_def map_replicate_const)
  then show ?thesis using fw sh row lx by simp
qed


theorem max_forward_isolated_zero_witness:
  "in_neighbors spec_graph 3 = []
   \<and> (\<exists>out. GraphMaxAggregationModule_forward spec_graph spec_x_fl = Inr out
           \<and> shape out = [num_nodes spec_graph, 2 * 2]
           \<and> take 2 (slice out 3) = slice spec_x_fl 3
           \<and> drop 2 (slice out 3) = replicate 2 (Finite 0))"
proof -
  have h1: "shape spec_x_fl = [num_nodes spec_graph, 2]" by code_simp
  have h2: "wf_tensor spec_x_fl" by code_simp
  have h3: "3 < num_nodes spec_graph" by code_simp
  have h4: "in_neighbors spec_graph 3 = []" by code_simp
  show ?thesis using h4 max_forward_isolated_zero[OF h1 h2 h3 h4] by blast
qed

text \<open>
  C10.  The aggregated half of every output row of the max aggregation is the row of the
  max-reduced tensor with every infinite entry, positive or negative, replaced by zero: no
  entry of it is infinite, and where an in-neighbor's feature is positive infinity the
  aggregated entry is zero.  The first half of every output row is the row of \<open>x\<close>,
  unchanged.
\<close>

theorem max_forward_zeroes_every_infinity:
  assumes "shape x = [num_nodes g, d]" and "wf_tensor x"
  shows "\<exists>out m. GraphMaxAggregationModule_forward g x = Inr out
           \<and> copy_u_max g x = Inr m
           \<and> shape out = [num_nodes g, 2 * d]
           \<and> (\<forall>v < num_nodes g.
                 take d (slice out v) = slice x v
               \<and> drop d (slice out v) = map (\<lambda>y. if isinf y then Finite 0 else y) (slice m v)
               \<and> (\<forall>y \<in> set (drop d (slice out v)). \<not> isinf y)
               \<and> (\<forall>j < d. (\<exists>u \<in> set (in_neighbors g v). at2 x u j = PosInf) \<longrightarrow>
                     drop d (slice out v) ! j = Finite 0))"
proof -
  let ?f = "\<lambda>v j. fl_max_list (map (\<lambda>u. at2 x u j) (in_neighbors g v))"
  let ?m = "\<lparr>shape = [num_nodes g, d], elems = tabulate2 (num_nodes g) d ?f\<rparr>"
  let ?z = "\<lambda>y. if isinf y then Finite 0 else y"
  have m: "copy_u_max g x = Inr ?m" using assms(1) by (rule copy_u_max_2d)
  have wfm: "wf_tensor ?m" by (simp add: wf_tensor_def length_tabulate2)
  have wfz: "wf_tensor (zero_isinf ?m)" using wfm by (simp only: zero_isinf_simps)
  have shz: "shape (zero_isinf ?m) = [num_nodes g, d]" by (simp add: zero_isinf_simps)
  obtain out where out: "cat_last x (zero_isinf ?m) = Inr out"
    using cat_last_2d[OF assms(1) shz] by simp
  have fw: "GraphMaxAggregationModule_forward g x = Inr out"
    using m out by (simp add: GraphMaxAggregationModule_forward_def bindE_def)
  have sh: "shape out = [num_nodes g, 2 * d]"
    using cat_last_2d_shape(1)[OF assms(1) shz assms(2) wfz out] by simp
  have rows: "take d (slice out v) = slice x v
               \<and> drop d (slice out v) = map ?z (slice ?m v)
               \<and> (\<forall>y \<in> set (drop d (slice out v)). \<not> isinf y)
               \<and> (\<forall>j < d. (\<exists>u \<in> set (in_neighbors g v). at2 x u j = PosInf) \<longrightarrow>
                     drop d (slice out v) ! j = Finite 0)"
    if v: "v < num_nodes g" for v
  proof -
    have row: "slice out v = slice x v @ map ?z (slice ?m v)"
      using slice_cat_2d[OF assms(1) shz assms(2) wfz v out] by (simp only: slice_zero_isinf)
    have lx: "length (slice x v) = d" using length_slice_2d[OF assms(1,2) v] .
    have a: "take d (slice out v) = slice x v" using row lx by simp
    have b: "drop d (slice out v) = map ?z (slice ?m v)" using row lx by simp
    have c: "\<forall>y \<in> set (drop d (slice out v)). \<not> isinf y"
      unfolding b by (auto simp: isinf_def)
    have d: "drop d (slice out v) ! j = Finite 0"
      if j: "j < d" and ex: "\<exists>u \<in> set (in_neighbors g v). at2 x u j = PosInf" for j
    proof -
      have "PosInf \<in> set (map (\<lambda>u. at2 x u j) (in_neighbors g v))"
        using ex by force
      then have "?f v j = PosInf" by (rule fl_max_list_PosInf)
      then show ?thesis
        unfolding b using v j by (simp add: slice_tabulate2 isinf_def)
    qed
    show ?thesis using a b c d by blast
  qed
  show ?thesis using fw m sh rows by blast
qed

theorem max_forward_zeroes_every_infinity_witness:
  "GraphMaxAggregationModule_forward spec_graph spec_x_fl =
     Inr \<lparr>shape = [5, 4],
          elems = [Finite 1, Finite 2, Finite 5, Finite 6,
                   Finite 3, NegInf, Finite 1, Finite 2,
                   Finite 5, Finite 6, Finite 3, Finite 0,
                   PosInf, Finite 2, Finite 0, Finite 0,
                   NaN, Finite 8, Finite 0, Finite 2]\<rparr>
   \<and> (\<exists>out m. GraphMaxAggregationModule_forward spec_graph spec_x_fl = Inr out
           \<and> copy_u_max spec_graph spec_x_fl = Inr m
           \<and> shape out = [num_nodes spec_graph, 2 * 2]
           \<and> (\<forall>v < num_nodes spec_graph.
                 take 2 (slice out v) = slice spec_x_fl v
               \<and> drop 2 (slice out v) = map (\<lambda>y. if isinf y then Finite 0 else y) (slice m v)
               \<and> (\<forall>y \<in> set (drop 2 (slice out v)). \<not> isinf y)
               \<and> (\<forall>j < 2. (\<exists>u \<in> set (in_neighbors spec_graph v). at2 spec_x_fl u j = PosInf) \<longrightarrow>
                     drop 2 (slice out v) ! j = Finite 0)))"
proof -
  have h1: "shape spec_x_fl = [num_nodes spec_graph, 2]" by code_simp
  have h2: "wf_tensor spec_x_fl" by code_simp
  have ev: "GraphMaxAggregationModule_forward spec_graph spec_x_fl =
     Inr \<lparr>shape = [5, 4],
          elems = [Finite 1, Finite 2, Finite 5, Finite 6,
                   Finite 3, NegInf, Finite 1, Finite 2,
                   Finite 5, Finite 6, Finite 3, Finite 0,
                   PosInf, Finite 2, Finite 0, Finite 0,
                   NaN, Finite 8, Finite 0, Finite 2]\<rparr>"
    by code_simp
  show ?thesis using ev max_forward_zeroes_every_infinity[OF h1 h2] by blast
qed

section \<open>Properties of the GAT aggregation\<close>






























section \<open>Properties of the constructors of the attention modules\<close>

text \<open>
  C7.  Whenever \<open>dim % num_heads\<close> is defined and not zero, the constructors of
  \<open>GraphAttnGATAggregationModule\<close>, \<open>GraphAttnTrfAggregationModule\<close> and
  \<open>TransformerSequenceEncoderModule\<close> fail with the configuration error, whatever their other
  arguments are, so no module exists on which \<open>forward\<close> could be called; whenever it is
  zero the check passes and each constructor is what the construction after the check gives.
\<close>

theorem constructors_check_dim_and_num_heads:
  assumes "py_mod dim' num_heads = Inr r"
  shows "(r \<noteq> 0 \<longrightarrow>
            check_dim_and_num_heads_consistency dim' num_heads = Inl ConfigurationError
          \<and> GraphAttnGATAggregationModule_init dim' num_heads w_u b_u w_v
              = Inl ConfigurationError
          \<and> GraphAttnTrfAggregationModule_init dim' num_heads dropout w_qkv b_qkv w_out b_out
              = Inl ConfigurationError
          \<and> TransformerSequenceEncoderModule_init encoder_layer w0 num_layers dim' num_heads
               seq_len bidir dropout = Inl ConfigurationError)
       \<and> (r = 0 \<longrightarrow>
            check_dim_and_num_heads_consistency dim' num_heads = Inr ()
          \<and> GraphAttnGATAggregationModule_init dim' num_heads w_u b_u w_v
              = GraphAttnGATAggregationModule_build dim' num_heads w_u b_u w_v
          \<and> GraphAttnTrfAggregationModule_init dim' num_heads dropout w_qkv b_qkv w_out b_out
              = GraphAttnTrfAggregationModule_build dim' num_heads dropout w_qkv b_qkv w_out b_out
          \<and> TransformerSequenceEncoderModule_init encoder_layer w0 num_layers dim' num_heads
               seq_len bidir dropout
              = TransformerSequenceEncoderModule_build encoder_layer w0 num_layers dim' num_heads
                  seq_len bidir dropout)"
proof (intro conjI impI)
  assume r: "r \<noteq> 0"
  show c: "check_dim_and_num_heads_consistency dim' num_heads = Inl ConfigurationError"
    using assms r by (simp add: check_dim_and_num_heads_consistency_def bindE_def)
  show "GraphAttnGATAggregationModule_init dim' num_heads w_u b_u w_v = Inl ConfigurationError"
    by (simp add: GraphAttnGATAggregationModule_init_def c bindE_def)
  show "GraphAttnTrfAggregationModule_init dim' num_heads dropout w_qkv b_qkv w_out b_out
      = Inl ConfigurationError"
    by (simp add: GraphAttnTrfAggregationModule_init_def c bindE_def)
  show "TransformerSequenceEncoderModule_init encoder_layer w0 num_layers dim' num_heads
      seq_len bidir dropout = Inl ConfigurationError"
    by (simp add: TransformerSequenceEncoderModule_init_def c bindE_def)
next
  assume r: "r = 0"
  show c: "check_dim_and_num_heads_consistency dim' num_heads = Inr ()"
    using assms r by (simp add: check_dim_and_num_heads_consistency_def bindE_def)
  show "GraphAttnGATAggregationModule_init dim' num_heads w_u b_u w_v
      = GraphAttnGATAggregationModule_build dim' num_heads w_u b_u w_v"
    by (simp add: GraphAttnGATAggregationModule_init_def c bindE_def)
  show "GraphAttnTrfAggregationModule_init dim' num_heads dropout w_qkv b_qkv w_out b_out
      = GraphAttnTrfAggregationModule_build dim' num_heads dropout w_qkv b_qkv w_out b_out"
    by (simp add: GraphAttnTrfAggregationModule_init_def c bindE_def)
  show "TransformerSequenceEncoderModule_init encoder_layer w0 num_layers dim' num_heads
      seq_len bidir dropout
      = TransformerSequenceEncoderModule_build encoder_layer w0 num_layers dim' num_heads
          seq_len bidir dropout"
    by (simp add: TransformerSequenceEncoderModule_init_def c bindE_def)
qed

theorem constructors_check_dim_and_num_heads_witness:
  "py_mod 10 3 = Inr 1
   \<and> GraphAttnGATAggregationModule_init 10 3 example_w_u example_b_u example_w_v
       = Inl ConfigurationError
   \<and> GraphAttnTrfAggregationModule_init 10 3 0 example_w_u example_b_u example_w_v example_b_u
       = Inl ConfigurationError
   \<and> TransformerSequenceEncoderModule_init (\<lambda>d h f p. Inr ()) example_w_v 2 10 3 5 False 0
       = Inl ConfigurationError
   \<and> py_mod 12 3 = Inr 0
   \<and> GraphAttnGATAggregationModule_init 12 3 example_w_u example_b_u example_w_v
       = GraphAttnGATAggregationModule_build 12 3 example_w_u example_b_u example_w_v
   \<and> TransformerSequenceEncoderModule_init (\<lambda>d h f p. Inr ()) example_w_v 2 12 3 5 False 0
       = TransformerSequenceEncoderModule_build (\<lambda>d h f p. Inr ()) example_w_v 2 12 3 5 False 0"
proof -
  have h1: "py_mod 10 3 = Inr 1" by (simp add: py_mod_def)
  have h2: "py_mod 12 3 = Inr 0" by (simp add: py_mod_def)
  note t1 = constructors_check_dim_and_num_heads[OF h1, of example_w_u example_b_u example_w_v 0
      example_w_u example_b_u example_w_v example_b_u "\<lambda>d h f p. Inr ()" example_w_v 2 5 False]
  note t2 = constructors_check_dim_and_num_heads[OF h2, of example_w_u example_b_u example_w_v 0
      example_w_u example_b_u example_w_v example_b_u "\<lambda>d h f p. Inr ()" example_w_v 2 5 False]
  show ?thesis using h1 h2 t1 t2 by simp
qed

section \<open>Properties of the features preparator\<close>

lemma select_Nil [simp]: "select [] xs = []" "select m [] = []"
  by (simp_all add: select_def)

lemma select_Cons [simp]:
  "select (b # m) (x # xs) = (if b then x # select m xs else select m xs)"
  by (simp add: select_def)

lemma length_select:
  "length m = length xs \<Longrightarrow> length (select m xs) = length (filter id m)"
  by (induction m xs rule: list_induct2) simp_all

lemma count_not:
  "length (filter id (map Not m)) = length m - length (filter id m)"
proof (induction m)
  case Nil
  show ?case by simp
next
  case (Cons b m)
  have "length (filter id m) \<le> length m" by simp
  then show ?case using Cons by (cases b) (simp_all add: Suc_diff_le)
qed

lemma select_replicate_False:
  "length emb = n \<Longrightarrow> select (replicate n False @ m) (emb @ ys) = select m ys"
proof (induction n arbitrary: emb)
  case 0
  then show ?case by simp
next
  case (Suc n)
  then obtain e emb' where "emb = e # emb'" "length emb' = n"
    by (cases emb) simp_all
  then show ?case using Suc.IH by simp
qed

lemma masks_disjoint_Cons [simp]:
  "masks_disjoint (a # m1) (b # m2) = (\<not> (a \<and> b) \<and> masks_disjoint m1 m2)"
  by (simp add: masks_disjoint_def)

lemma select_select_disjoint:
  assumes "length nm = length pm" "length pm = length row" "masks_disjoint nm pm"
  shows "select (select (map Not nm) pm) (select (map Not nm) row) = select pm row"
  using assms
proof (induction nm pm row rule: list_induct3)
  case Nil
  show ?case by simp
next
  case (Cons n nm p pm r row)
  then show ?case by auto
qed

lemma count_select_disjoint:
  assumes "length nm = length pm" "masks_disjoint nm pm"
  shows "length (filter id (select (map Not nm) pm)) = length (filter id pm)"
  using assms
proof (induction nm pm rule: list_induct2)
  case Nil
  show ?case by simp
next
  case (Cons n nm p pm)
  then show ?case by auto
qed


lemma bindE_Inr_iff:
  "bindE m f = Inr y \<longleftrightarrow> (\<exists>v. m = Inr v \<and> f v = Inr y)"
  by (cases m) (simp_all add: bindE_def)

lemma init_fields:
  assumes "FeaturesPreparatorForDeepModels_init a = Inr self"
  shows "self_output_dim self = accumulated_output_dim a"
    "self_use_learnable_node_embeddings self = use_learnable_node_embeddings a"
    "self_use_plr_for_num_features self = use_plr_for_num_features a"
    "self_use_plr_for_past_targtes self = use_plr_for_past_targets a"
    "init_node_embeddings a = Inr (self_node_embeddings self)"
    "init_plr_num_features a = Inr (self_plr_embeddings_num_features self)"
    "init_plr_past_targets a
       = Inr (self_plr_embeddings_past_targets self, self_past_targets_mask self)"
    "self_num_features_mask self
       = (if use_plr_for_num_features a then Some (num_features_mask a) else None)"
  using assms
  by (auto simp: FeaturesPreparatorForDeepModels_init_def bindE_Inr_iff)

lemma init_plr_num_Some:
  assumes "init_plr_num_features a = Inr r" "use_plr_for_num_features a"
  shows "\<exists>plr. r = Some plr \<and> 0 \<le> plr_num_features_embedding_dim a
           \<and> plr_embedding_dim plr = nat (plr_num_features_embedding_dim a)"
  using assms
  by (auto simp: init_plr_num_features_def PLREmbeddings_init_def bindE_Inr_iff split: if_splits)

lemma init_plr_past_Some:
  assumes "init_plr_past_targets a = Inr (r, m)" "use_plr_for_past_targets a"
  shows "\<exists>plr stored. r = Some plr \<and> m = Some stored
           \<and> shift_past_targets_mask a = Inr stored
           \<and> 0 \<le> plr_past_targets_embedding_dim a
           \<and> plr_embedding_dim plr = nat (plr_past_targets_embedding_dim a)"
  using assms
  by (auto simp: init_plr_past_targets_def PLREmbeddings_init_def bindE_Inr_iff split: if_splits)

lemma shift_past_targets_mask_eq:
  assumes "shift_past_targets_mask a = Inr stored" "use_plr_for_num_features a"
    and "0 \<le> plr_num_features_embedding_dim a"
  shows "stored = replicate (length (filter id (num_features_mask a))
                              * nat (plr_num_features_embedding_dim a)) False
                  @ select (map Not (num_features_mask a)) (past_targets_mask a)"
    "length (num_features_mask a) = length (past_targets_mask a)"
  using assms
  by (auto simp: shift_past_targets_mask_def index_mask_def zeros_bool_def mask_sum_def
      bindE_Inr_iff Let_def nat_mult_distrib split: if_splits)


lemma init_succeeds_cases:
  "(case m of Inl err \<Rightarrow> False | Inr v \<Rightarrow> True) \<Longrightarrow> \<exists>v. m = Inr v"
  by (cases m) simp_all












lemma stored_mask_eq:
  assumes init: "FeaturesPreparatorForDeepModels_init a = Inr self"
    and past: "use_plr_for_past_targets a"
  shows "\<exists>stored. self_past_targets_mask self = Some stored
     \<and> (if use_plr_for_num_features a
         then stored = replicate (length (filter id (num_features_mask a))
                              * nat (plr_num_features_embedding_dim a)) False
                  @ select (map Not (num_features_mask a)) (past_targets_mask a)
              \<and> length (num_features_mask a) = length (past_targets_mask a)
              \<and> 0 \<le> plr_num_features_embedding_dim a
         else stored = past_targets_mask a)"
proof -
  note f = init_fields[OF init]
  obtain stored where st: "self_past_targets_mask self = Some stored"
      "shift_past_targets_mask a = Inr stored"
    using init_plr_past_Some[OF f(7) past] by auto
  show ?thesis
  proof (cases "use_plr_for_num_features a")
    case True
    obtain plr where e0: "0 \<le> plr_num_features_embedding_dim a"
      using init_plr_num_Some[OF f(6) True] by auto
    show ?thesis
      using st(1) True e0 shift_past_targets_mask_eq[OF st(2) True e0] by simp
  next
    case False
    then show ?thesis using st by (simp add: shift_past_targets_mask_def)
  qed
qed










subsection \<open>The layout after the first PLR step\<close>

lemma prod_list_snoc: "prod_list (s @ [w]) = prod_list s * (w::nat)"
  by simp

lemma last_row_concat:
  assumes "shape t = s @ [w]" "elems t = concat (map f [0..<prod_list s])"
    and "\<And>i. i < prod_list s \<Longrightarrow> length (f i) = w" and "r < prod_list s"
  shows "last_row t r = f r"
  using assms take_drop_concat[of "prod_list s" f w r] by (simp add: last_row_def)

lemma wf_concat:
  assumes "shape t = s @ [w]" "elems t = concat (map f [0..<prod_list s])"
    and "\<And>i. i < prod_list s \<Longrightarrow> length (f i) = w"
  shows "wf_tensor t"
  using assms length_concat_const[of "prod_list s" f w] by (simp add: wf_tensor_def)

lemma length_last_row:
  assumes "shape t = s @ [w]" "wf_tensor t" "r < prod_list s"
  shows "length (last_row t r) = w"
proof -
  have "r * w + w \<le> prod_list s * w" using assms(3) by (rule row_bound)
  then show ?thesis using assms by (simp add: last_row_def wf_tensor_def)
qed

lemma index_last_rows:
  assumes shx: "shape x = s @ [F]" and wfx: "wf_tensor x" and len: "length m = F"
  shows "\<exists>y. index_last m x = Inr y \<and> shape y = s @ [length (filter id m)] \<and> wf_tensor y
           \<and> (\<forall>r < prod_list s. last_row y r = select m (last_row x r))"
proof -
  let ?f = "\<lambda>r. select m (last_row x r)"
  let ?y = "\<lparr>shape = s @ [length (filter id m)],
             elems = concat (map ?f [0..<prod_list s])\<rparr>"
  have y: "index_last m x = Inr ?y" using shx len by (simp add: index_last_def)
  have l: "length (?f i) = length (filter id m)" if "i < prod_list s" for i
    using length_last_row[OF shx wfx that] len by (simp add: length_select)
  have "wf_tensor ?y"
    using l by (intro wf_concat[where f = ?f and s = s]) simp_all
  moreover have "last_row ?y r = ?f r" if "r < prod_list s" for r
    using l that by (intro last_row_concat[where f = ?f and s = s]) simp_all
  ultimately show ?thesis using y by (intro exI[of _ ?y]) simp
qed

lemma cat_last_rows:
  assumes sa: "shape a = s @ [wa]" and sb: "shape b = s @ [wb]"
    and wfa: "wf_tensor a" and wfb: "wf_tensor b"
  shows "\<exists>y. cat_last a b = Inr y \<and> shape y = s @ [wa + wb] \<and> wf_tensor y
           \<and> (\<forall>r < prod_list s. last_row y r = last_row a r @ last_row b r)"
proof -
  let ?f = "\<lambda>i. last_row a i @ last_row b i"
  have l: "length (?f i) = wa + wb" if "i < prod_list s" for i
    using length_last_row[OF sa wfa that] length_last_row[OF sb wfb that] by simp
  show ?thesis
  proof (cases "shape b = [0]")
    case True
    then have e: "s = []" "wb = 0" using sb by (cases s; simp)+
    have "last_row b r = []" for r using True by (simp add: last_row_def)
    then show ?thesis using True e sa wfa by (simp add: cat_last_def)
  next
    case b: False
    show ?thesis
    proof (cases "shape a = [0]")
      case True
      then have e: "s = []" "wa = 0" using sa by (cases s; simp)+
      have "last_row a r = []" for r using True by (simp add: last_row_def)
      then show ?thesis using True b e sb wfb by (simp add: cat_last_def)
    next
      case False
      let ?y = "\<lparr>shape = s @ [wa + wb], elems = concat (map ?f [0..<prod_list s])\<rparr>"
      have "butlast (shape a) = s" "butlast (shape b) = s"
          "last (shape a) = wa" "last (shape b) = wb" "shape a \<noteq> []" "shape b \<noteq> []"
        using sa sb by simp_all
      then have y: "cat_last a b = Inr ?y"
        using False b by (simp add: cat_last_def)
      have "wf_tensor ?y"
        using l by (intro wf_concat[where f = ?f and s = s]) simp_all
      moreover have "last_row ?y r = ?f r" if "r < prod_list s" for r
        using l that by (intro last_row_concat[where f = ?f and s = s]) simp_all
      ultimately show ?thesis using y by (intro exI[of _ ?y]) simp
    qed
  qed
qed

lemma plr_embedded_flat:
  assumes "shape x = s @ [k]"
  shows "\<exists>y. bindE (PLREmbeddings_forward plr x) flatten_last2 = Inr y
           \<and> shape y = s @ [k * plr_embedding_dim plr] \<and> wf_tensor y"
proof -
  let ?e = "plr_embedding_dim plr"
  let ?emb = "\<lparr>shape = s @ [k, ?e],
      elems = tabulate2 (prod_list (s @ [k])) ?e
                (\<lambda>i c. plr_embed plr (i mod last (s @ [k])) (elems x ! i) c)\<rparr>"
  have 1: "PLREmbeddings_forward plr x = Inr ?emb"
    using assms by (simp add: PLREmbeddings_forward_def)
  have b: "butlast (s @ [k, ?e]) = s @ [k]" by (simp add: butlast_append)
  let ?y = "\<lparr>shape = s @ [k * ?e], elems = elems ?emb\<rparr>"
  have 2: "flatten_last2 ?emb = Inr ?y"
    by (simp add: flatten_last2_def b)
  have "wf_tensor ?y" by (simp add: wf_tensor_def length_tabulate2)
  then show ?thesis using 1 2 by (intro exI[of _ ?y]) (simp add: bindE_def)
qed

lemma plr_step_rows:
  assumes shx: "shape x = s @ [F]" and wfx: "wf_tensor x" and len: "length m = F"
  shows "\<exists>y. plr_step m plr x = Inr y \<and> wf_tensor y
           \<and> shape y = s @ [length (filter id m) * plr_embedding_dim plr
                            + (F - length (filter id m))]
           \<and> (\<forall>r < prod_list s. \<exists>emb.
                 length emb = length (filter id m) * plr_embedding_dim plr
                 \<and> last_row y r = emb @ select (map Not m) (last_row x r))"
proof -
  let ?k = "length (filter id m)" and ?e = "plr_embedding_dim plr"
  obtain x_sel where 1: "index_last m x = Inr x_sel" "shape x_sel = s @ [?k]"
    using index_last_rows[OF shx wfx len] by auto
  obtain x_emb where 2: "bindE (PLREmbeddings_forward plr x_sel) flatten_last2 = Inr x_emb"
      "shape x_emb = s @ [?k * ?e]" "wf_tensor x_emb"
    using plr_embedded_flat[OF 1(2)] by auto
  have ln: "length (map Not m) = F" using len by simp
  obtain x_rest where 3: "index_last (map Not m) x = Inr x_rest"
      "shape x_rest = s @ [length (filter id (map Not m))]" "wf_tensor x_rest"
      "\<forall>r < prod_list s. last_row x_rest r = select (map Not m) (last_row x r)"
    using index_last_rows[OF shx wfx ln] by blast
  have rest: "shape x_rest = s @ [F - ?k]"
    using 3(2) len by (simp only: count_not)
  obtain y where 4: "cat_last x_emb x_rest = Inr y" "shape y = s @ [?k * ?e + (F - ?k)]"
      "wf_tensor y" "\<forall>r < prod_list s. last_row y r = last_row x_emb r @ last_row x_rest r"
    using cat_last_rows[OF 2(2) rest 2(3) 3(3)] by blast
  have step: "plr_step m plr x = Inr y"
  proof -
    obtain emb where e: "PLREmbeddings_forward plr x_sel = Inr emb" "flatten_last2 emb = Inr x_emb"
      using 2(1) by (auto simp: bindE_Inr_iff)
    show ?thesis using 1(1) e 3(1) 4(1) by (simp add: plr_step_def bindE_def)
  qed
  have rows: "\<exists>emb. length emb = ?k * ?e
                 \<and> last_row y r = emb @ select (map Not m) (last_row x r)"
    if r: "r < prod_list s" for r
  proof -
    have "length (last_row x_emb r) = ?k * ?e"
      using length_last_row[OF 2(2,3) r] .
    moreover have "last_row y r = last_row x_emb r @ select (map Not m) (last_row x r)"
      using 4(4) 3(4) r by simp
    ultimately show ?thesis by blast
  qed
  show ?thesis using step 4(2,3) rows by blast
qed

lemma index_last_eq:
  assumes "shape x = s @ [F]" "length m = F"
  shows "index_last m x = Inr \<lparr>shape = s @ [length (filter id m)],
           elems = concat (map (\<lambda>r. select m (last_row x r)) [0..<prod_list s])\<rparr>"
  using assms by (simp add: index_last_def)

lemma past_targets_selected_after_step1:
  assumes init: "FeaturesPreparatorForDeepModels_init a = Inr self"
    and num: "use_plr_for_num_features a" and past: "use_plr_for_past_targets a"
    and ln: "length (num_features_mask a) = F" and lp: "length (past_targets_mask a) = F"
    and dis: "masks_disjoint (num_features_mask a) (past_targets_mask a)"
    and shx: "shape x = s @ [F]" and wfx: "wf_tensor x"
  shows "\<exists>x1 stored. embed_num_features self x = Inr x1
           \<and> self_past_targets_mask self = Some stored
           \<and> index_last stored x1 = index_last (past_targets_mask a) x"
proof -
  let ?nm = "num_features_mask a" and ?pm = "past_targets_mask a"
  note f = init_fields[OF init]
  obtain plr where plr: "self_plr_embeddings_num_features self = Some plr"
      "plr_embedding_dim plr = nat (plr_num_features_embedding_dim a)"
    using init_plr_num_Some[OF f(6) num] by auto
  define k where "k = length (filter id ?nm)"
  define e where "e = nat (plr_num_features_embedding_dim a)"
  obtain x1 where x1: "plr_step ?nm plr x = Inr x1" "wf_tensor x1"
      "shape x1 = s @ [k * e + (F - k)]"
      "\<forall>r < prod_list s. \<exists>emb. length emb = k * e
           \<and> last_row x1 r = emb @ select (map Not ?nm) (last_row x r)"
    using plr_step_rows[OF shx wfx ln, of plr] unfolding plr(2) k_def e_def by blast
  have step: "embed_num_features self x = Inr x1"
    using num f(3,8) plr(1) x1(1) by (simp add: embed_num_features_def)
  obtain stored where st: "self_past_targets_mask self = Some stored"
      "stored = replicate (k * e) False @ select (map Not ?nm) ?pm"
    using stored_mask_eq[OF init past] num unfolding k_def e_def by auto
  have ll: "length ?nm = length ?pm" using ln lp by simp
  have "length (select (map Not ?nm) ?pm) = length (filter id (map Not ?nm))"
    by (rule length_select) (simp add: ll)
  also have "\<dots> = length ?nm - length (filter id ?nm)" by (rule count_not)
  finally have "length (select (map Not ?nm) ?pm) = F - k" using ln by (simp only: k_def)
  then have ls: "length stored = k * e + (F - k)" using st(2) by simp
  have cnt: "length (filter id stored) = length (filter id ?pm)"
    using st(2) count_select_disjoint[OF ll dis] by simp
  have row: "select stored (last_row x1 r) = select ?pm (last_row x r)"
    if r: "r < prod_list s" for r
  proof -
    obtain emb where emb: "length emb = k * e"
        "last_row x1 r = emb @ select (map Not ?nm) (last_row x r)"
      using x1(4) r by blast
    have lr: "length ?pm = length (last_row x r)"
      using length_last_row[OF shx wfx r] lp by simp
    show ?thesis
      unfolding emb(2) st(2)
      using select_replicate_False[OF emb(1)] select_select_disjoint[OF ll lr dis] by simp
  qed
  have "map (\<lambda>r. select stored (last_row x1 r)) [0..<prod_list s]
      = map (\<lambda>r. select ?pm (last_row x r)) [0..<prod_list s]"
    using row by (intro map_cong) auto
  then have rows: "concat (map (\<lambda>r. select stored (last_row x1 r)) [0..<prod_list s])
      = concat (map (\<lambda>r. select ?pm (last_row x r)) [0..<prod_list s])"
    by (rule arg_cong)
  have "index_last stored x1 = index_last ?pm x"
    unfolding index_last_eq[OF x1(3) ls] index_last_eq[OF shx lp] cnt rows by (rule refl)
  then show ?thesis using step st(1) by blast
qed

text \<open>
  C4.  With both PLR steps enabled, masks of length \<open>F = features_dim\<close> and disjoint masks, the
  mask stored at construction has length \<open>k * e + (F - k)\<close>, is false on its first \<open>k * e\<close>
  positions, continues with the original past-targets mask restricted to the non-numeric
  columns (so it has as many true entries as the original mask), and selects from the layout
  after step 1, an embedded block of length \<open>k * e\<close> followed by the non-numeric columns
  in their order, exactly the past-target columns of the original row, in their order.
  Accordingly, for every input \<open>x\<close> with last dimension \<open>F\<close>, indexing the result of step 1 of
  \<open>forward\<close> by the stored mask gives \<open>x\<close> indexed by the original past-targets mask.
\<close>

theorem past_targets_mask_shifted:
  assumes init: "FeaturesPreparatorForDeepModels_init a = Inr self"
    and num: "use_plr_for_num_features a" and past: "use_plr_for_past_targets a"
    and len: "int (length (num_features_mask a)) = features_dim a"
      "int (length (past_targets_mask a)) = features_dim a"
    and dis: "masks_disjoint (num_features_mask a) (past_targets_mask a)"
  shows "\<exists>stored k e.
        self_past_targets_mask self = Some stored
      \<and> int k = mask_sum (num_features_mask a) \<and> int e = plr_num_features_embedding_dim a
      \<and> int (length stored) = int (k * e) + (features_dim a - int k)
      \<and> (\<forall>i < k * e. \<not> stored ! i)
      \<and> drop (k * e) stored = select (map Not (num_features_mask a)) (past_targets_mask a)
      \<and> mask_sum stored = mask_sum (past_targets_mask a)
      \<and> (\<forall>emb row. length emb = k * e \<and> int (length row) = features_dim a \<longrightarrow>
            select stored (emb @ select (map Not (num_features_mask a)) row)
              = select (past_targets_mask a) row)
      \<and> (\<forall>x. wf_tensor x \<and> shape x \<noteq> [] \<and> int (last (shape x)) = features_dim a \<longrightarrow>
            (\<exists>x1. embed_num_features self x = Inr x1
                \<and> index_last stored x1 = index_last (past_targets_mask a) x))"
proof -
  let ?nm = "num_features_mask a" and ?pm = "past_targets_mask a"
  define k where "k = length (filter id ?nm)"
  define e where "e = nat (plr_num_features_embedding_dim a)"
  note f = init_fields[OF init]
  obtain plr where e0: "0 \<le> plr_num_features_embedding_dim a"
    using init_plr_num_Some[OF f(6) num] by auto
  obtain stored where st: "self_past_targets_mask self = Some stored"
      "shift_past_targets_mask a = Inr stored"
    using init_plr_past_Some[OF f(7) past] by auto
  have eq: "stored = replicate (k * e) False @ select (map Not ?nm) ?pm"
    unfolding k_def e_def using st(2) num e0 by (rule shift_past_targets_mask_eq(1))
  have ll: "length ?nm = length ?pm" using len by simp
  have "length (select (map Not ?nm) ?pm) = length (filter id (map Not ?nm))"
    by (rule length_select) (simp add: ll)
  also have "\<dots> = length ?nm - length (filter id ?nm)" by (rule count_not)
  finally have lsel: "length (select (map Not ?nm) ?pm) = length ?nm - k"
    by (simp only: k_def)
  have kle: "k \<le> length ?nm" by (simp add: k_def)
  have 1: "int (length stored) = int (k * e) + (features_dim a - int k)"
    using eq lsel kle len by (simp add: of_nat_diff)
  have 2: "\<forall>i < k * e. \<not> stored ! i"
    using eq by (simp add: nth_append)
  have 3: "drop (k * e) stored = select (map Not ?nm) ?pm"
    using eq by simp
  have 4: "mask_sum stored = mask_sum ?pm"
    using eq count_select_disjoint[OF ll dis] by (simp add: mask_sum_def)
  have 5: "select stored (emb @ select (map Not ?nm) row) = select ?pm row"
    if "length emb = k * e \<and> int (length row) = features_dim a" for emb row
  proof -
    have lr: "length ?pm = length row" using that len by simp
    show ?thesis
      using that eq select_replicate_False[of emb "k * e"] select_select_disjoint[OF ll lr dis]
      by simp
  qed
  have 6: "\<exists>x1. embed_num_features self x = Inr x1
                \<and> index_last stored x1 = index_last ?pm x"
    if x: "wf_tensor x \<and> shape x \<noteq> [] \<and> int (last (shape x)) = features_dim a" for x
  proof -
    have shx: "shape x = butlast (shape x) @ [last (shape x)]" using x by simp
    have ln: "length ?nm = last (shape x)" and lp: "length ?pm = last (shape x)"
      using x len by simp_all
    obtain x1 stored' where "embed_num_features self x = Inr x1"
        "self_past_targets_mask self = Some stored'"
        "index_last stored' x1 = index_last ?pm x"
      using past_targets_selected_after_step1[OF init num past ln lp dis shx] x by blast
    then show ?thesis using st(1) by auto
  qed
  have "int k = mask_sum ?nm" by (simp add: k_def mask_sum_def)
  moreover have "int e = plr_num_features_embedding_dim a" using e0 by (simp add: e_def)
  ultimately show ?thesis using st(1) 1 2 3 4 5 6 by blast
qed

theorem past_targets_mask_shifted_witness:
  "\<exists>self. FeaturesPreparatorForDeepModels_init full_args = Inr self
     \<and> masks_disjoint (num_features_mask full_args) (past_targets_mask full_args)
     \<and> self_past_targets_mask self = Some [False, False, False, True]
     \<and> select [False, False, False, True]
          ([10, 11] @ select (map Not (num_features_mask full_args)) [1, 2, 3 :: real])
        = select (past_targets_mask full_args) [1, 2, 3]"
proof -
  have "case FeaturesPreparatorForDeepModels_init full_args of
          Inl err \<Rightarrow> False | Inr v \<Rightarrow> True"
    by code_simp
  then obtain self where init: "FeaturesPreparatorForDeepModels_init full_args = Inr self"
    using init_succeeds_cases by blast
  have dis: "masks_disjoint (num_features_mask full_args) (past_targets_mask full_args)"
    by code_simp
  have flags: "use_plr_for_num_features full_args" "use_plr_for_past_targets full_args"
    by code_simp+
  have len: "int (length (num_features_mask full_args)) = features_dim full_args"
    "int (length (past_targets_mask full_args)) = features_dim full_args"
    by code_simp+
  have vals: "mask_sum (num_features_mask full_args) = 1"
    "plr_num_features_embedding_dim full_args = 2" "features_dim full_args = 3"
    "select (map Not (num_features_mask full_args)) (past_targets_mask full_args) = [False, True]"
    by code_simp+
  obtain stored k e where st: "self_past_targets_mask self = Some stored"
      "int k = mask_sum (num_features_mask full_args)"
      "int e = plr_num_features_embedding_dim full_args"
      "int (length stored) = int (k * e) + (features_dim full_args - int k)"
      "\<forall>i < k * e. \<not> stored ! i"
      "drop (k * e) stored
         = select (map Not (num_features_mask full_args)) (past_targets_mask full_args)"
      "\<forall>(emb :: real list) row.
          length emb = k * e \<and> int (length row) = features_dim full_args \<longrightarrow>
            select stored (emb @ select (map Not (num_features_mask full_args)) row)
              = select (past_targets_mask full_args) row"
    using past_targets_mask_shifted[OF init flags len dis] by blast
  have ke: "k = 1" "e = 2" using st(2,3) vals by simp_all
  have "length stored = 4" using st(4) ke vals by simp
  moreover have "\<not> stored ! 0" "\<not> stored ! 1" using st(5) ke by simp_all
  moreover have "drop 2 stored = [False, True]" using st(6) ke vals by simp
  ultimately have stored: "stored = [False, False, False, True]"
    by (cases stored; cases "tl stored"; cases "tl (tl stored)"; cases "tl (tl (tl stored))") auto
  have "length [10, 11 :: real] = k * e \<and> int (length [1, 2, 3 :: real]) = features_dim full_args"
    using ke vals by simp
  then have "select stored ([10, 11] @ select (map Not (num_features_mask full_args)) [1, 2, 3 :: real])
        = select (past_targets_mask full_args) [1, 2, 3]"
    using st(7) by blast
  then show ?thesis using init dis st(1) stored by blast
qed






end
